theory Spec2Isabelle
  imports Complex_Main "HOL-Library.List_Lexorder"
begin

section \<open>Errors, indices and arrays\<close>

text \<open>
  Every exception of the Python source is a value. \<open>CalculatorError\<close> stands for
  whatever the external librascal calculator raises, \<open>LibraryError\<close> for what the
  equistore storage library raises; both propagate unmodified.
  Floating point numbers are idealised as \<open>real\<close>.
\<close>

datatype error =
    ValueError string
  | Exception string
  | IndexError
  | RuntimeError
  | KeyError
  | AssertionError
  | CalculatorError string
  | LibraryError string

definition bind_err :: "error + 'a \<Rightarrow> ('a \<Rightarrow> error + 'b) \<Rightarrow> error + 'b" where
  "bind_err m f = (case m of Inl e \<Rightarrow> Inl e | Inr x \<Rightarrow> f x)"

text \<open>Python and numpy indexing of an axis of length \<open>n\<close>: a negative index counts
  from the end, an index out of range raises.\<close>

definition py_index :: "nat \<Rightarrow> int \<Rightarrow> error + nat" where
  "py_index n i =
     (let j = (if i < 0 then int n + i else i)
      in if 0 \<le> j \<and> j < int n then Inr (nat j) else Inl IndexError)"

text \<open>A numpy array or torch tensor: its shape and the element at each multi-index.
  Only the elements at indices inside the shape are meaningful.\<close>

record ndarray =
  shape :: "nat list"
  elem :: "nat list \<Rightarrow> real"

definition zeros :: "nat list \<Rightarrow> ndarray" where
  "zeros sh = \<lparr>shape = sh, elem = (\<lambda>_. 0)\<rparr>"

text \<open>\<open>a.shape[k]\<close>\<close>

definition axis_len :: "ndarray \<Rightarrow> nat \<Rightarrow> error + nat" where
  "axis_len a k = (if k < length (shape a) then Inr (shape a ! k) else Inl IndexError)"

section \<open>SphericalExpansionAutograd.backward\<close>

text \<open>A row of the calculator's gradient metadata:
  \<open>(structure, center, neighbor, _, neighbor species)\<close>.\<close>

type_synonym grad_info_row = "int \<times> int \<times> int \<times> int \<times> int"

text \<open>The autograd context: which of the four inputs of \<open>forward\<close>
  (calculator, positions, cell, numbers) need a gradient, and the tensors saved by
  \<open>forward\<close> (the gradient coefficients, a 2-D tensor, and the gradient metadata).\<close>

record ctx =
  needs_input_grad :: "bool \<times> bool \<times> bool \<times> bool"
  saved_grad_spherical_expansion :: ndarray
  saved_grad_info :: "grad_info_row list"

text \<open>\<open>torch.dot(grad_output[center_i, :], grad_spherical_expansion[sample_i, :])\<close>:
  both row indices are checked, and the two rows must have the same length.\<close>

definition row_dot :: "ndarray \<Rightarrow> int \<Rightarrow> ndarray \<Rightarrow> int \<Rightarrow> error + real" where
  "row_dot a i b j =
     bind_err (axis_len a 0) (\<lambda>na. bind_err (py_index na i) (\<lambda>i'.
     bind_err (axis_len b 0) (\<lambda>nb. bind_err (py_index nb j) (\<lambda>j'.
     bind_err (axis_len a 1) (\<lambda>ca. bind_err (axis_len b 1) (\<lambda>cb.
       if ca \<noteq> cb then Inl RuntimeError
       else Inr (\<Sum>k\<leftarrow>[0..<ca]. elem a [i', k] * elem b [j', k])))))))"

text \<open>\<open>grad_positions[neighbor_i, spatial_i] += v\<close>\<close>

definition add_at :: "ndarray \<Rightarrow> int \<Rightarrow> nat \<Rightarrow> real \<Rightarrow> error + ndarray" where
  "add_at g i x v =
     bind_err (axis_len g 0) (\<lambda>n. bind_err (py_index n i) (\<lambda>i'.
       Inr (g\<lparr>elem := (elem g)([i', x] := elem g [i', x] + v)\<rparr>)))"

text \<open>The inner loop \<open>for spatial_i in range(3)\<close>, over the remaining directions.\<close>

fun spatial_loop ::
  "ndarray \<Rightarrow> ndarray \<Rightarrow> nat \<Rightarrow> int \<Rightarrow> int \<Rightarrow> nat list \<Rightarrow> ndarray \<Rightarrow> error + ndarray" where
  "spatial_loop grad_output gse sample center_i neighbor_i [] gp = Inr gp"
| "spatial_loop grad_output gse sample center_i neighbor_i (spatial_i # rest) gp =
     bind_err (row_dot grad_output center_i gse (int (3 * sample + spatial_i))) (\<lambda>d.
     bind_err (add_at gp neighbor_i spatial_i d) (\<lambda>gp'.
       spatial_loop grad_output gse sample center_i neighbor_i rest gp'))"

text \<open>The outer loop \<open>for sample, (_, center_i, neighbor_i, *_) in enumerate(grad_info)\<close>.\<close>

fun grad_info_loop ::
  "ndarray \<Rightarrow> ndarray \<Rightarrow> (nat \<times> grad_info_row) list \<Rightarrow> ndarray \<Rightarrow> error + ndarray" where
  "grad_info_loop grad_output gse [] gp = Inr gp"
| "grad_info_loop grad_output gse ((sample, (_, center_i, neighbor_i, _, _)) # rest) gp =
     bind_err (spatial_loop grad_output gse sample center_i neighbor_i [0, 1, 2] gp) (\<lambda>gp'.
       grad_info_loop grad_output gse rest gp')"

text \<open>The result of \<open>backward\<close>: the four gradients
  \<open>(grad_calculator, grad_positions, grad_cell, grad_numbers)\<close>, \<open>None\<close> where the
  source returns \<open>None\<close>. Only \<open>grad_positions\<close> is ever assigned.\<close>

type_synonym backward_result = "unit option \<times> ndarray option \<times> unit option \<times> unit option"

definition backward_positions :: "ctx \<Rightarrow> ndarray \<Rightarrow> error + ndarray option" where
  "backward_positions c grad_output =
     (case needs_input_grad c of (_, needs_positions, _, _) \<Rightarrow>
        if needs_positions then
          bind_err (axis_len (saved_grad_spherical_expansion c) 1) (\<lambda>width.
            if width = 0 then
              Inl (ValueError ''missing gradients, please set `compute_gradients` to True'')
            else
              bind_err (axis_len grad_output 0) (\<lambda>n.
              bind_err (grad_info_loop grad_output (saved_grad_spherical_expansion c)
                          (enumerate 0 (saved_grad_info c)) (zeros [n, 3])) (\<lambda>gp.
                Inr (Some gp))))
        else Inr None)"

text \<open>The two last tests of the source both read \<open>needs_input_grad[2]\<close>; the fourth
  component of \<open>needs_input_grad\<close> is never read.\<close>

definition backward :: "ctx \<Rightarrow> ndarray \<Rightarrow> error + backward_result" where
  "backward c grad_output =
     (case needs_input_grad c of (needs_calculator, needs_positions, needs_cell, needs_numbers) \<Rightarrow>
        if needs_calculator then
          Inl (ValueError ''can not compute gradients w.r.t. calculator'')
        else
          bind_err (backward_positions c grad_output) (\<lambda>grad_positions.
            if needs_cell then Inl (ValueError ''can not compute gradients w.r.t. cell'')
            else if needs_cell then
              Inl (ValueError ''can not compute gradients w.r.t. atomic numbers'')
            else Inr (None, grad_positions, None, None)))"

section \<open>numpy operations used by the builders\<close>

text \<open>Row-major position of a multi-index, and back.\<close>

definition ravel :: "nat list \<Rightarrow> nat list \<Rightarrow> nat" where
  "ravel sh idx = foldl (\<lambda>acc (d, i). acc * d + i) 0 (zip sh idx)"

fun unravel :: "nat list \<Rightarrow> nat \<Rightarrow> nat list" where
  "unravel [] k = []"
| "unravel (d # ds) k = (k div prod_list ds) # unravel ds (k mod prod_list ds)"

definition reshaped :: "ndarray \<Rightarrow> nat list \<Rightarrow> ndarray" where
  "reshaped a sh = \<lparr>shape = sh, elem = (\<lambda>idx. elem a (unravel (shape a) (ravel sh idx)))\<rparr>"

text \<open>\<open>a.reshape(dims)\<close>: a negative entry is the dimension to infer. numpy refuses
  to infer it when the known dimensions multiply to zero or do not divide the size.\<close>

definition np_reshape :: "ndarray \<Rightarrow> int list \<Rightarrow> error + ndarray" where
  "np_reshape a dims =
     (let s_original = prod_list (shape a);
          s_known = prod_list (map nat (filter (\<lambda>d. 0 \<le> d) dims));
          n_unknown = length (filter (\<lambda>d. d < 0) dims)
      in if 1 < n_unknown then Inl (ValueError ''can only specify one unknown dimension'')
         else if n_unknown = 1 then
           (if s_known = 0 \<or> s_original mod s_known \<noteq> 0
            then Inl (ValueError ''cannot reshape array'')
            else Inr (reshaped a (map (\<lambda>d. if d < 0 then s_original div s_known else nat d) dims)))
         else if s_original \<noteq> s_known then Inl (ValueError ''cannot reshape array'')
         else Inr (reshaped a (map nat dims)))"

text \<open>A slice \<open>start:stop\<close> on an axis of length \<open>n\<close> is clipped, never an error.\<close>

definition slice_bounds :: "nat \<Rightarrow> nat \<times> nat \<Rightarrow> nat \<times> nat" where
  "slice_bounds n sl = (min (fst sl) n, min (snd sl) n)"

text \<open>\<open>a[rows, j, :, start:stop]\<close> on a 4-D array, \<open>rows\<close> an index array.\<close>

definition select_block :: "ndarray \<Rightarrow> nat list \<Rightarrow> nat \<Rightarrow> nat \<times> nat \<Rightarrow> error + ndarray" where
  "select_block a rows j sl =
     (case shape a of
        [r, s, n, w] \<Rightarrow>
          if (\<exists>i \<in> set rows. r \<le> i) \<or> s \<le> j then Inl IndexError
          else (case slice_bounds w sl of (lo, hi) \<Rightarrow>
            Inr \<lparr>shape = [length rows, n, hi - lo],
                 elem = (\<lambda>idx. case idx of [i, k, m] \<Rightarrow> elem a [rows ! i, j, k, lo + m] | _ \<Rightarrow> 0)\<rparr>)
      | _ \<Rightarrow> Inl IndexError)"

text \<open>\<open>a[r0:r1, j, :, start:stop]\<close> on a 4-D array.\<close>

definition select_rows :: "ndarray \<Rightarrow> nat \<times> nat \<Rightarrow> nat \<Rightarrow> nat \<times> nat \<Rightarrow> error + ndarray" where
  "select_rows a rsl j sl =
     (case shape a of
        [r, s, n, w] \<Rightarrow>
          if s \<le> j then Inl IndexError
          else (case (slice_bounds r rsl, slice_bounds w sl) of ((r0, r1), (lo, hi)) \<Rightarrow>
            Inr \<lparr>shape = [r1 - r0, n, hi - lo],
                 elem = (\<lambda>idx. case idx of [i, k, m] \<Rightarrow> elem a [r0 + i, j, k, lo + m] | _ \<Rightarrow> 0)\<rparr>)
      | _ \<Rightarrow> Inl IndexError)"

text \<open>\<open>a.swapaxes(1, 2)\<close> on a 3-D array.\<close>

definition swapaxes12 :: "ndarray \<Rightarrow> ndarray" where
  "swapaxes12 a =
     \<lparr>shape = (case shape a of [p, q, r] \<Rightarrow> [p, r, q] | sh \<Rightarrow> sh),
      elem = (\<lambda>idx. case idx of [i, j, k] \<Rightarrow> elem a [i, k, j] | _ \<Rightarrow> elem a idx)\<rparr>"

text \<open>All multi-indices inside a shape, in row-major order.\<close>

fun indices :: "nat list \<Rightarrow> nat list list" where
  "indices [] = [[]]"
| "indices (d # ds) = concat (map (\<lambda>i. map ((#) i) (indices ds)) [0..<d])"

text \<open>\<open>np.linalg.norm(a)\<close>\<close>

definition linalg_norm :: "ndarray \<Rightarrow> real" where
  "linalg_norm a = sqrt (\<Sum>idx\<leftarrow>indices (shape a). (elem a idx)\<^sup>2)"

text \<open>\<open>np.concatenate(arrays)\<close> along the first axis: the list must not be empty and
  the other axes must agree.\<close>

fun concat_elem :: "ndarray list \<Rightarrow> nat list \<Rightarrow> real" where
  "concat_elem [] idx = 0"
| "concat_elem (a # as) [] = 0"
| "concat_elem (a # as) (i # rest) =
     (if i < hd (shape a) then elem a (i # rest)
      else concat_elem as ((i - hd (shape a)) # rest))"

definition concatenate :: "ndarray list \<Rightarrow> error + ndarray" where
  "concatenate arrays =
     (case arrays of
        [] \<Rightarrow> Inl (ValueError ''need at least one array to concatenate'')
      | a # as \<Rightarrow>
          if shape a = [] \<or> (\<exists>b \<in> set as. shape b = [] \<or> tl (shape b) \<noteq> tl (shape a))
          then Inl (ValueError ''all the input array dimensions must match'')
          else Inr \<lparr>shape = sum_list (map (\<lambda>b. hd (shape b)) arrays) # tl (shape a),
                    elem = concat_elem arrays\<rparr>)"

text \<open>\<open>xs.index(x)\<close>\<close>

fun list_index :: "'a list \<Rightarrow> 'a \<Rightarrow> error + nat" where
  "list_index [] x = Inl (ValueError ''not in list'')"
| "list_index (y # ys) x =
     (if y = x then Inr 0 else bind_err (list_index ys x) (\<lambda>i. Inr (Suc i)))"

text \<open>A loop that builds a list and stops at the first exception.\<close>

fun map_err :: "('a \<Rightarrow> error + 'b) \<Rightarrow> 'a list \<Rightarrow> error + 'b list" where
  "map_err f [] = Inr []"
| "map_err f (x # xs) =
     bind_err (f x) (\<lambda>y. bind_err (map_err f xs) (\<lambda>ys. Inr (y # ys)))"

section \<open>The storage model: labels, blocks, descriptors\<close>

record labels =
  names :: "string list"
  lvalues :: "int list list"

record gradient =
  grad_data :: ndarray
  grad_samples :: labels
  grad_components :: "labels list"

text \<open>A block; \<open>properties\<close> is called \<open>features\<close> by the older storage library
  that \<open>librascal.py\<close> uses. The gradients are stored by parameter name.\<close>

record tensor_block =
  block_values :: ndarray
  samples :: labels
  components :: "labels list"
  properties :: labels
  gradients :: "(string \<times> gradient) list"

definition add_gradient :: "tensor_block \<Rightarrow> string \<Rightarrow> ndarray \<Rightarrow> labels \<Rightarrow> labels list \<Rightarrow> tensor_block" where
  "add_gradient b parameter gdata gsamples gcomponents =
     b\<lparr>gradients := gradients b @
          [(parameter, \<lparr>grad_data = gdata, grad_samples = gsamples, grad_components = gcomponents\<rparr>)]\<rparr>"

definition has_gradient :: "tensor_block \<Rightarrow> string \<Rightarrow> bool" where
  "has_gradient b parameter = (map_of (gradients b) parameter \<noteq> None)"

record descriptor =
  keys :: labels
  blocks :: "tensor_block list"

section \<open>The external calculator\<close>

record atoms =
  numbers :: "int list"
  positions :: "(real \<times> real \<times> real) list"
  cell :: "real list"

text \<open>\<open>len(frame)\<close>\<close>

definition len :: "atoms \<Rightarrow> nat" where
  "len f = length (numbers f)"

record hypers =
  max_angular :: nat
  max_radial :: nat
  compute_gradients :: bool
  global_species :: "int list"
  expansion_by_species_method :: string

text \<open>A row of the calculator's per-center metadata:
  \<open>(structure, global atom index, center species)\<close>.\<close>

type_synonym info_row = "int \<times> int \<times> int"

text \<open>What \<open>calculator.transform(frames)\<close> gives access to: \<open>get_features\<close>,
  \<open>get_features_gradient\<close>, \<open>get_representation_info\<close> and \<open>get_gradients_info\<close>.\<close>

record manager =
  features :: ndarray
  features_gradient :: ndarray
  representation_info :: "info_row list"
  gradients_info :: "grad_info_row list"

text \<open>The calculator is opaque: \<open>SphericalExpansion(**hypers).transform(frames)\<close>
  is a parameter of the model, and may raise.\<close>

type_synonym calculator = "hypers \<Rightarrow> atoms list \<Rightarrow> error + manager"

section \<open>RascalSphericalExpansion.compute\<close>

text \<open>\<open>list(map(int, np.unique(np.concatenate([f.numbers for f in frames]))))\<close>;
  \<open>np.concatenate\<close> raises on an empty list.\<close>

definition unique_species :: "atoms list \<Rightarrow> error + int list" where
  "unique_species frames =
     (if frames = [] then Inl (ValueError ''need at least one array to concatenate'')
      else Inr (sort (remdups (concat (map numbers frames)))))"

text \<open>The two assignments \<open>hypers["global_species"] = global_species\<close> and
  \<open>hypers["expansion_by_species_method"] = "user defined"\<close>.\<close>

definition user_defined :: "hypers \<Rightarrow> int list \<Rightarrow> hypers" where
  "user_defined h gs = h\<lparr>global_species := gs, expansion_by_species_method := ''user defined''\<rparr>"

text \<open>The key rows \<open>[l, center_species, neighbor_species]\<close> of \<open>sparse\<close>.\<close>

definition sparse_keys :: "hypers \<Rightarrow> int list \<Rightarrow> (nat \<times> int \<times> int) list" where
  "sparse_keys h gs =
     [(l, center_species, neighbor_species).
        l \<leftarrow> [0..<max_angular h + 1], center_species \<leftarrow> gs, neighbor_species \<leftarrow> gs]"

definition feature_labels :: "hypers \<Rightarrow> labels" where
  "feature_labels h = \<lparr>names = [''n''], lvalues = map (\<lambda>n. [int n]) [0..<max_radial h]\<rparr>"

text \<open>The loop that builds \<open>lm_slices\<close>, from the current \<open>start\<close>.\<close>

fun lm_slices_from :: "nat \<Rightarrow> nat list \<Rightarrow> (nat \<times> nat) list" where
  "lm_slices_from start [] = []"
| "lm_slices_from start (l # ls) = (start, start + 2 * l + 1) # lm_slices_from (start + 2 * l + 1) ls"

definition lm_slices :: "hypers \<Rightarrow> (nat \<times> nat) list" where
  "lm_slices h = lm_slices_from 0 [0..<max_angular h + 1]"

definition global_to_per_structure_atom_id :: "atoms list \<Rightarrow> nat list" where
  "global_to_per_structure_atom_id frames = concat (map (\<lambda>frame. [0..<len frame]) frames)"

text \<open>\<open>global_to_per_structure_atom_id[center]\<close>\<close>

definition local_atom_id :: "nat list \<Rightarrow> int \<Rightarrow> error + int" where
  "local_atom_id g2p center = bind_err (py_index (length g2p) center) (\<lambda>j. Inr (int (g2p ! j)))"

definition spherical_component_labels :: "nat \<Rightarrow> labels" where
  "spherical_component_labels l =
     \<lparr>names = [''spherical_harmonics_m''], lvalues = map (\<lambda>m. [m]) [- int l..int l]\<rparr>"

definition spatial_component_labels :: labels where
  "spatial_component_labels = \<lparr>names = [''gradient_direction''], lvalues = [[0], [1], [2]]\<rparr>"

text \<open>\<open>np.where(gradient_mask)[0]\<close>: the rows of \<open>grad_info\<close> with this structure,
  center and neighbor species.\<close>

definition gradient_mask :: "grad_info_row list \<Rightarrow> int \<Rightarrow> int \<Rightarrow> int \<Rightarrow> nat list" where
  "gradient_mask grad_info structure center neighbor_species =
     [g \<leftarrow> [0..<length grad_info].
        (case grad_info ! g of (s, c, _, _, sp) \<Rightarrow> s = structure \<and> c = center \<and> sp = neighbor_species)]"

text \<open>\<open>gradients[start:stop, neighbor_species_i, :, lm_slices[l]]\<close>, swapped and
  reshaped to \<open>(-1, 3, shape[1], shape[2])\<close>.\<close>

definition block_gradient_at :: "ndarray \<Rightarrow> nat \<Rightarrow> nat \<times> nat \<Rightarrow> nat \<Rightarrow> error + ndarray" where
  "block_gradient_at gradients4 neighbor_species_i sl grad_index =
     bind_err (select_rows gradients4 (3 * grad_index, 3 * grad_index + 3) neighbor_species_i sl) (\<lambda>bg.
     bind_err (axis_len (swapaxes12 bg) 1) (\<lambda>d1.
     bind_err (axis_len (swapaxes12 bg) 2) (\<lambda>d2.
       np_reshape (swapaxes12 bg) [- 1, 3, int d1, int d2])))"

text \<open>The loop \<open>for grad_index in np.where(gradient_mask)[0]\<close>; the accumulator is
  the pair \<open>(block_gradients, gradient_samples)\<close>.\<close>

fun grad_index_loop ::
  "ndarray \<Rightarrow> grad_info_row list \<Rightarrow> nat list \<Rightarrow> nat \<Rightarrow> nat \<times> nat \<Rightarrow> nat \<Rightarrow> nat list \<Rightarrow>
   ndarray list \<times> int list list \<Rightarrow> error + ndarray list \<times> int list list" where
  "grad_index_loop gradients4 grad_info g2p nsi sl sample_i [] acc = Inr acc"
| "grad_index_loop gradients4 grad_info g2p nsi sl sample_i (grad_index # rest) (block_gradients, gradient_samples) =
     bind_err (block_gradient_at gradients4 nsi sl grad_index) (\<lambda>block_gradient.
       if linalg_norm block_gradient = 0
       then grad_index_loop gradients4 grad_info g2p nsi sl sample_i rest (block_gradients, gradient_samples)
       else (case grad_info ! grad_index of (structure, _, neighbor_global, _, _) \<Rightarrow>
         bind_err (local_atom_id g2p neighbor_global) (\<lambda>neighbor.
           grad_index_loop gradients4 grad_info g2p nsi sl sample_i rest
             (block_gradients @ [block_gradient],
              gradient_samples @ [[int sample_i, structure, neighbor]]))))"

text \<open>The loop \<open>for sample_i, (structure, center) in enumerate(samples)\<close>.\<close>

fun gradient_sample_loop ::
  "ndarray \<Rightarrow> grad_info_row list \<Rightarrow> nat list \<Rightarrow> nat \<Rightarrow> nat \<times> nat \<Rightarrow> int \<Rightarrow> (nat \<times> int \<times> int) list \<Rightarrow>
   ndarray list \<times> int list list \<Rightarrow> error + ndarray list \<times> int list list" where
  "gradient_sample_loop gradients4 grad_info g2p nsi sl neighbor_species [] acc = Inr acc"
| "gradient_sample_loop gradients4 grad_info g2p nsi sl neighbor_species ((sample_i, structure, center) # rest) acc =
     bind_err (grad_index_loop gradients4 grad_info g2p nsi sl sample_i
                 (gradient_mask grad_info structure center neighbor_species) acc) (\<lambda>acc'.
       gradient_sample_loop gradients4 grad_info g2p nsi sl neighbor_species rest acc')"

text \<open>The body of \<open>if hypers["compute_gradients"]\<close>: the pair
  \<open>(block_gradients, gradient_samples)\<close> that is left when it ends.\<close>

definition block_gradients_of ::
  "hypers \<Rightarrow> ndarray \<Rightarrow> grad_info_row list \<Rightarrow> nat list \<Rightarrow> nat \<Rightarrow> nat \<times> nat \<Rightarrow> int \<Rightarrow> nat \<Rightarrow>
   (int \<times> int) list \<Rightarrow> error + ndarray \<times> labels" where
  "block_gradients_of h gradients4 grad_info g2p nsi sl neighbor_species l samples0 =
     bind_err (gradient_sample_loop gradients4 grad_info g2p nsi sl neighbor_species
                 (enumerate 0 samples0) ([], [])) (\<lambda>(block_gradients, gradient_samples).
       if length gradient_samples \<noteq> 0 then
         bind_err (concatenate block_gradients) (\<lambda>bg.
           Inr (bg, \<lparr>names = [''sample'', ''structure'', ''atom''], lvalues = gradient_samples\<rparr>))
       else
         Inr (zeros [0, 3, length (lvalues (spherical_component_labels l)),
                     length (lvalues (feature_labels h))],
              \<lparr>names = [''sample'', ''structure'', ''atom''], lvalues = []\<rparr>))"

text \<open>One turn of the loop over \<open>sparse\<close>: the block of one key.\<close>

definition spherical_block ::
  "hypers \<Rightarrow> int list \<Rightarrow> ndarray \<Rightarrow> ndarray \<Rightarrow> info_row list \<Rightarrow> grad_info_row list \<Rightarrow> nat list \<Rightarrow>
   nat \<times> int \<times> int \<Rightarrow> error + tensor_block" where
  "spherical_block h gs data4 gradients4 info grad_info g2p key =
     (case key of (l, center_species, neighbor_species) \<Rightarrow>
      bind_err (list_index gs neighbor_species) (\<lambda>neighbor_species_i.
      let center_species_mask = [i \<leftarrow> [0..<length info]. snd (snd (info ! i)) = center_species];
          sl = lm_slices h ! l
      in
      bind_err (select_block data4 center_species_mask neighbor_species_i sl) (\<lambda>selected.
      let block_data = swapaxes12 selected;
          samples0 = map (\<lambda>i. (fst (info ! i), fst (snd (info ! i)))) center_species_mask
      in
      bind_err (if compute_gradients h
                then bind_err (block_gradients_of h gradients4 grad_info g2p neighbor_species_i sl
                                 neighbor_species l samples0) (\<lambda>g. Inr (Some g))
                else Inr None) (\<lambda>grad.
      bind_err (map_err (\<lambda>(structure, center).
                  bind_err (local_atom_id g2p center) (\<lambda>c. Inr [structure, c])) samples0) (\<lambda>sample_rows.
        let b = \<lparr>block_values = block_data,
                 samples = \<lparr>names = [''structure'', ''center''], lvalues = sample_rows\<rparr>,
                 components = [spherical_component_labels l],
                 properties = feature_labels h,
                 gradients = []\<rparr>;
            gradient_components = [spatial_component_labels, spherical_component_labels l]
        in Inr (case grad of
                  None \<Rightarrow> b
                | Some (block_gradients, gradient_samples) \<Rightarrow>
                    add_gradient b ''positions'' block_gradients gradient_samples gradient_components))))))"

definition spherical_compute :: "hypers \<Rightarrow> calculator \<Rightarrow> atoms list \<Rightarrow> error + descriptor" where
  "spherical_compute hypers0 rascal frames =
     bind_err (unique_species frames) (\<lambda>gs.
     let h = user_defined hypers0 gs in
     bind_err (rascal h frames) (\<lambda>m.
     bind_err (axis_len (features m) 0) (\<lambda>n_data.
     bind_err (np_reshape (features m)
                 [int n_data, int (length gs), int (max_radial h), - 1]) (\<lambda>data4.
     bind_err (axis_len (features_gradient m) 0) (\<lambda>n_grad.
     bind_err (np_reshape (features_gradient m)
                 [int n_grad, int (length gs), int (max_radial h), - 1]) (\<lambda>gradients4.
     bind_err (map_err (spherical_block h gs data4 gradients4 (representation_info m)
                          (gradients_info m) (global_to_per_structure_atom_id frames))
                 (sparse_keys h gs)) (\<lambda>bs.
       Inr \<lparr>keys = \<lparr>names = [''spherical_harmonics_l'', ''center_species'', ''neighbor_species''],
                    lvalues = map (\<lambda>(l, cs, ns). [int l, cs, ns]) (sparse_keys h gs)\<rparr>,
            blocks = bs\<rparr>)))))))"

section \<open>RascalPairExpansion.compute\<close>

text \<open>\<open>(idata**2).sum(axis=(2, 3))\<close> at \<open>(center, neighbor)\<close>.\<close>

definition squared_norm :: "ndarray \<Rightarrow> nat \<Rightarrow> nat \<Rightarrow> real" where
  "squared_norm idata c n =
     (\<Sum>k\<leftarrow>[0..<shape idata ! 2]. \<Sum>m\<leftarrow>[0..<shape idata ! 3]. (elem idata [c, n, k, m])\<^sup>2)"

text \<open>\<open>np.where((idata**2).sum(axis=(2, 3)) > 1e-20)\<close>: the retained
  \<open>(center, neighbor)\<close> pairs, in row-major order.\<close>

definition nonzero_pairs :: "ndarray \<Rightarrow> (nat \<times> nat) list" where
  "nonzero_pairs idata =
     [(c, n). c \<leftarrow> [0..<shape idata ! 0], n \<leftarrow> [0..<shape idata ! 1],
              squared_norm idata c n > 1 / 10 ^ 20]"

text \<open>\<open>idata[nonzero[0], nonzero[1]]\<close>\<close>

definition select_pairs :: "ndarray \<Rightarrow> (nat \<times> nat) list \<Rightarrow> ndarray" where
  "select_pairs idata nonzero =
     \<lparr>shape = length nonzero # drop 2 (shape idata),
      elem = (\<lambda>idx. case idx of
                p # rest \<Rightarrow> elem idata (fst (nonzero ! p) # snd (nonzero ! p) # rest)
              | [] \<Rightarrow> 0)\<rparr>"

text \<open>One turn of the loop over \<open>ijframes\<close>, after the calculator has answered:
  the pair appended to \<open>data\<close> and to \<open>samples\<close>.\<close>

definition pair_frame :: "hypers \<Rightarrow> nat \<Rightarrow> nat \<Rightarrow> atoms \<Rightarrow> manager \<Rightarrow> error + ndarray \<times> int list list" where
  "pair_frame h max_atoms i ijf m =
     bind_err (np_reshape (features m)
                 [int (len ijf), int max_atoms, int (max_radial h), - 1]) (\<lambda>idata.
     let nonzero = nonzero_pairs idata in
     bind_err (np_reshape (select_pairs idata nonzero)
                 [int (length nonzero), int (max_radial h), - 1]) (\<lambda>d.
       Inr (d, map (\<lambda>(c, n). [int c * 0 + int i, int c, int n]) nonzero)))"

text \<open>The loop over \<open>enumerate(ijframes)\<close>. The first component of the result is the
  list of calls made to the calculator (the frames passed to each
  \<open>calculator.transform\<close>), in order.\<close>

fun pair_loop ::
  "calculator \<Rightarrow> hypers \<Rightarrow> nat \<Rightarrow> (nat \<times> atoms) list \<Rightarrow>
   atoms list list \<times> (error + (ndarray \<times> int list list) list)" where
  "pair_loop rascal h max_atoms [] = ([], Inr [])"
| "pair_loop rascal h max_atoms ((i, ijf) # rest) =
     (case rascal h [ijf] of
        Inl e \<Rightarrow> ([[ijf]], Inl e)
      | Inr m \<Rightarrow>
          (case pair_frame h max_atoms i ijf m of
             Inl e \<Rightarrow> ([[ijf]], Inl e)
           | Inr x \<Rightarrow>
               (case pair_loop rascal h max_atoms rest of
                  (calls, r) \<Rightarrow> ([ijf] # calls, bind_err r (\<lambda>xs. Inr (x # xs))))))"

text \<open>\<open>a[..., start:stop]\<close>\<close>

definition select_last :: "ndarray \<Rightarrow> nat \<times> nat \<Rightarrow> error + ndarray" where
  "select_last a sl =
     (if shape a = [] then Inl IndexError
      else (case slice_bounds (last (shape a)) sl of (lo, hi) \<Rightarrow>
        Inr \<lparr>shape = butlast (shape a) @ [hi - lo],
             elem = (\<lambda>idx. elem a (butlast idx @ [lo + last idx]))\<rparr>))"

definition pair_block :: "hypers \<Rightarrow> ndarray \<Rightarrow> labels \<Rightarrow> nat \<Rightarrow> error + tensor_block" where
  "pair_block h data samples_all l =
     bind_err (select_last data (lm_slices h ! l)) (\<lambda>selected.
       Inr \<lparr>block_values = swapaxes12 selected,
            samples = samples_all,
            components = [spherical_component_labels l],
            properties = feature_labels h,
            gradients = []\<rparr>)"

text \<open>\<open>max([len(f) for f in frames])\<close>, on a list that is not empty.\<close>

definition max_atoms_of :: "atoms list \<Rightarrow> nat" where
  "max_atoms_of frames = foldr max (map len frames) 0"

definition pair_compute ::
  "hypers \<Rightarrow> calculator \<Rightarrow> atoms list \<Rightarrow> atoms list list \<times> (error + descriptor)" where
  "pair_compute hypers0 rascal frames =
     (if compute_gradients hypers0 then
        ([], Inl (Exception ''Pair expansion with gradient is not implemented''))
      else if frames = [] then ([], Inl (ValueError ''max() arg is an empty sequence''))
      else
        let max_atoms = max_atoms_of frames;
            gs = map int [0..<max_atoms];
            h = user_defined hypers0 gs;
            ijframes = map (\<lambda>f. f\<lparr>numbers := take (len f) gs\<rparr>) frames
        in (case pair_loop rascal h max_atoms (enumerate 0 ijframes) of
              (calls, r) \<Rightarrow>
                (calls,
                 bind_err r (\<lambda>xs.
                 bind_err (concatenate (map fst xs)) (\<lambda>data.
                 let samples_all = \<lparr>names = [''structure'', ''center_i'', ''center_j''],
                                    lvalues = concat (map snd xs)\<rparr> in
                 bind_err (map_err (pair_block h data samples_all) [0..<max_angular h + 1]) (\<lambda>bs.
                   Inr \<lparr>keys = \<lparr>names = [''spherical_harmonics_l''],
                                lvalues = map (\<lambda>l. [int l]) [0..<max_angular h + 1]\<rparr>,
                        blocks = bs\<rparr>))))))"

section \<open>compute_power_spectrum\<close>

subsection \<open>Array operations\<close>

text \<open>Modelled from the spec: \<open>ops.einsum\<close> of \<open>utils/models/operations.py\<close>, which is
  not among the sources, called with the subscripts \<open>"ima, imb -> iab"\<close>: the output
  value at \<open>(sample, prop_1, prop_2)\<close> is the sum over \<open>m\<close> of
  \<open>block_1[sample, m, prop_1] * block_2[sample, m, prop_2]\<close>. Operands whose \<open>i\<close> or
  \<open>m\<close> axes differ are refused.\<close>

definition einsum_ima_imb :: "ndarray \<Rightarrow> ndarray \<Rightarrow> error + ndarray" where
  "einsum_ima_imb x y =
     (if length (shape x) = 3 \<and> length (shape y) = 3 \<and>
         shape x ! 0 = shape y ! 0 \<and> shape x ! 1 = shape y ! 1
      then Inr \<lparr>shape = [shape x ! 0, shape x ! 2, shape y ! 2],
                elem = (\<lambda>idx. \<Sum>m\<leftarrow>[0..<shape x ! 1].
                          elem x [idx ! 0, m, idx ! 1] * elem y [idx ! 0, m, idx ! 2])\<rparr>
      else Inl (ValueError ''einsum: operands do not match the subscripts''))"

text \<open>Modelled from the spec: \<open>ops.einsum\<close> with \<open>"ixma, imb -> ixab"\<close>, the first
  gradient term \<open>\<Sum>m. grad_1[g, x, m, prop_1] * block_2[sample(g), m, prop_2]\<close>.\<close>

definition einsum_ixma_imb :: "ndarray \<Rightarrow> ndarray \<Rightarrow> error + ndarray" where
  "einsum_ixma_imb x y =
     (if length (shape x) = 4 \<and> length (shape y) = 3 \<and>
         shape x ! 0 = shape y ! 0 \<and> shape x ! 2 = shape y ! 1
      then Inr \<lparr>shape = [shape x ! 0, shape x ! 1, shape x ! 3, shape y ! 2],
                elem = (\<lambda>idx. \<Sum>m\<leftarrow>[0..<shape x ! 2].
                          elem x [idx ! 0, idx ! 1, m, idx ! 2] * elem y [idx ! 0, m, idx ! 3])\<rparr>
      else Inl (ValueError ''einsum: operands do not match the subscripts''))"

text \<open>Modelled from the spec: \<open>ops.einsum\<close> with \<open>"ima, ixmb -> ixab"\<close>, the symmetric
  gradient term with the roles of the two blocks swapped.\<close>

definition einsum_ima_ixmb :: "ndarray \<Rightarrow> ndarray \<Rightarrow> error + ndarray" where
  "einsum_ima_ixmb x y =
     (if length (shape x) = 3 \<and> length (shape y) = 4 \<and>
         shape x ! 0 = shape y ! 0 \<and> shape x ! 1 = shape y ! 2
      then Inr \<lparr>shape = [shape x ! 0, shape y ! 1, shape x ! 2, shape y ! 3],
                elem = (\<lambda>idx. \<Sum>m\<leftarrow>[0..<shape x ! 1].
                          elem x [idx ! 0, m, idx ! 2] * elem y [idx ! 0, idx ! 1, m, idx ! 3])\<rparr>
      else Inl (ValueError ''einsum: operands do not match the subscripts''))"

text \<open>\<open>factor * a\<close>\<close>

definition scale :: "real \<Rightarrow> ndarray \<Rightarrow> ndarray" where
  "scale factor a = a\<lparr>elem := (\<lambda>idx. factor * elem a idx)\<rparr>"

text \<open>\<open>a[rows, :, :]\<close>, \<open>rows\<close> an integer index array.\<close>

definition take_samples :: "ndarray \<Rightarrow> int list \<Rightarrow> error + ndarray" where
  "take_samples a rows =
     (if shape a = [] then Inl IndexError
      else bind_err (map_err (py_index (hd (shape a))) rows) (\<lambda>rows'.
        Inr \<lparr>shape = length rows # tl (shape a),
             elem = (\<lambda>idx. elem a ((rows' ! hd idx) # tl idx))\<rparr>))"

text \<open>\<open>gradient_data[new_row, :, :] += row\<close>, where \<open>row\<close> is row \<open>k\<close> of \<open>src\<close>;
  the two must have the same shape.\<close>

definition add_row :: "ndarray \<Rightarrow> nat \<Rightarrow> ndarray \<Rightarrow> nat \<Rightarrow> error + ndarray" where
  "add_row gd new_row src k =
     (if tl (shape gd) \<noteq> tl (shape src) then Inl (ValueError ''operands could not be broadcast'')
      else Inr (gd\<lparr>elem := (\<lambda>idx. if idx \<noteq> [] \<and> hd idx = new_row
                                  then elem gd idx + elem src (k # tl idx)
                                  else elem gd idx)\<rparr>))"

subsection \<open>Labels\<close>

text \<open>\<open>np.all(samples_1 == samples_2)\<close> on two arrays of label rows: row by row when
  the lengths agree, one row against all when one array has a single row, and not
  equal when the lengths cannot be broadcast.\<close>

definition samples_all_equal :: "int list list \<Rightarrow> int list list \<Rightarrow> bool" where
  "samples_all_equal xs ys =
     (if length xs = length ys then xs = ys
      else if length xs = 1 then list_all (\<lambda>y. y = hd xs) ys
      else if length ys = 1 then list_all (\<lambda>x. x = hd ys) xs
      else False)"

text \<open>\<open>np.intersect1d(xs, ys)\<close>: the common rows, sorted, each once.\<close>

definition intersect1d :: "int list list \<Rightarrow> int list list \<Rightarrow> int list list" where
  "intersect1d xs ys = sort (remdups [x \<leftarrow> xs. x \<in> set ys])"

text \<open>\<open>np.unique(np.concatenate([xs, ys]))\<close>\<close>

definition unique_rows :: "int list list \<Rightarrow> int list list" where
  "unique_rows xs = sort (remdups xs)"

text \<open>\<open>.view(np.int32).reshape(-1, 3)\<close>: the entries regrouped three by three.\<close>

fun chunk3 :: "int list \<Rightarrow> int list list" where
  "chunk3 (a # b # c # rest) = [a, b, c] # chunk3 rest"
| "chunk3 _ = []"

definition rows_of_three :: "int list list \<Rightarrow> error + int list list" where
  "rows_of_three rows =
     (if length (concat rows) mod 3 \<noteq> 0 then Inl (ValueError ''cannot reshape array'')
      else Inr (chunk3 (concat rows)))"

text \<open>Lookup in the dictionary \<open>{tuple(sample): i for i, sample in enumerate(rows)}\<close>:
  the last position of the sample.\<close>

definition mapping_lookup :: "int list list \<Rightarrow> int list \<Rightarrow> error + nat" where
  "mapping_lookup rows sample =
     (case list_index (rev rows) sample of
        Inl _ \<Rightarrow> Inl KeyError
      | Inr i \<Rightarrow> Inr (length rows - 1 - i))"

text \<open>\<open>labels["sample"]\<close>: the column of that name.\<close>

definition label_column :: "labels \<Rightarrow> string \<Rightarrow> error + int list" where
  "label_column ls name =
     bind_err (list_index (names ls) name) (\<lambda>j.
       map_err (\<lambda>row. if j < length row then Inr (row ! j) else Inl IndexError) (lvalues ls))"

text \<open>\<open>block.gradient(parameter)\<close>: the storage library raises when the block has no
  such gradient.\<close>

definition gradient_of :: "tensor_block \<Rightarrow> string \<Rightarrow> error + gradient" where
  "gradient_of b parameter =
     (case map_of (gradients b) parameter of
        None \<Rightarrow> Inl (LibraryError ''can not find gradients with respect to this parameter'')
      | Some g \<Rightarrow> Inr g)"

subsection \<open>The contraction of one pair of blocks\<close>

text \<open>\<open>slice_block\<close> of the storage library is a parameter of the model; it may raise.\<close>

type_synonym slicer = "tensor_block \<Rightarrow> labels \<Rightarrow> error + tensor_block"

text \<open>The restriction of both blocks to their common samples, when the samples differ.\<close>

definition restrict_to_common ::
  "slicer \<Rightarrow> tensor_block \<Rightarrow> tensor_block \<Rightarrow> error + tensor_block \<times> tensor_block" where
  "restrict_to_common slice_block spx_1 spx_2 =
     (if \<not> samples_all_equal (lvalues (samples spx_1)) (lvalues (samples spx_2)) then
        let common_samples =
              \<lparr>names = names (samples spx_1),
               lvalues = intersect1d (lvalues (samples spx_1)) (lvalues (samples spx_2))\<rparr>
        in bind_err (slice_block spx_1 common_samples) (\<lambda>s1.
           bind_err (slice_block spx_2 common_samples) (\<lambda>s2. Inr (s1, s2)))
      else Inr (spx_1, spx_2))"

text \<open>The deduplication test and the scale factor: \<open>None\<close> is the \<open>continue\<close> of the
  first branch. \<open>math.sqrt\<close> raises on a negative argument.\<close>

definition contraction_factor :: "bool \<Rightarrow> int \<Rightarrow> int \<Rightarrow> int \<Rightarrow> error + real option" where
  "contraction_factor use_same_spherical_expansions l1 ns1 ns2 =
     (if ns1 > ns2 \<and> use_same_spherical_expansions then Inr None
      else if 2 * l1 + 1 < 0 then Inl (ValueError ''math domain error'')
      else if ns1 = ns2 then Inr (Some (1 / sqrt (real_of_int (2 * l1 + 1))))
      else Inr (Some (sqrt 2 / sqrt (real_of_int (2 * l1 + 1)))))"

definition power_spectrum_properties :: "tensor_block \<Rightarrow> tensor_block \<Rightarrow> labels" where
  "power_spectrum_properties spx_1 spx_2 =
     \<lparr>names = map (\<lambda>name. name @ ''_1'') (names (properties spx_1))
              @ map (\<lambda>name. name @ ''_2'') (names (properties spx_2)),
      lvalues = [properties_1 @ properties_2.
                   properties_1 \<leftarrow> lvalues (properties spx_1),
                   properties_2 \<leftarrow> lvalues (properties spx_2)]\<rparr>"

text \<open>The two loops \<open>for sample, row in zip(gradient.samples, gradient_data_k)\<close>.\<close>

fun accumulate_rows ::
  "int list list \<Rightarrow> (int list \<times> nat) list \<Rightarrow> ndarray \<Rightarrow> ndarray \<Rightarrow> error + ndarray" where
  "accumulate_rows gradients_samples [] src gradient_data = Inr gradient_data"
| "accumulate_rows gradients_samples ((sample, k) # rest) src gradient_data =
     bind_err (mapping_lookup gradients_samples sample) (\<lambda>new_row.
     bind_err (add_row gradient_data new_row src k) (\<lambda>gd.
       accumulate_rows gradients_samples rest src gd))"

text \<open>The gradient of the output block, once both input gradients have samples.\<close>

definition power_spectrum_gradient ::
  "real \<Rightarrow> tensor_block \<Rightarrow> tensor_block \<Rightarrow> nat \<Rightarrow> gradient \<Rightarrow> gradient \<Rightarrow> error + gradient" where
  "power_spectrum_gradient factor spx_1 spx_2 n_properties gradient_1 gradient_2 =
     (let samples_1 = lvalues (grad_samples gradient_1);
          samples_2 = lvalues (grad_samples gradient_2)
      in
      bind_err (rows_of_three (unique_rows (samples_1 @ samples_2))) (\<lambda>gradients_samples.
      bind_err (label_column (grad_samples gradient_1) ''sample'') (\<lambda>column_1.
      bind_err (take_samples (block_values spx_2) column_1) (\<lambda>values_2.
      bind_err (einsum_ixma_imb (grad_data gradient_1) values_2) (\<lambda>e1.
      bind_err (np_reshape (scale factor e1) [int (length samples_1), 3, - 1]) (\<lambda>gradient_data_1.
      bind_err (accumulate_rows gradients_samples (zip samples_1 [0..<hd (shape gradient_data_1)])
                  gradient_data_1 (zeros [length gradients_samples, 3, n_properties])) (\<lambda>gd1.
      bind_err (label_column (grad_samples gradient_2) ''sample'') (\<lambda>column_2.
      bind_err (take_samples (block_values spx_1) column_2) (\<lambda>values_1.
      bind_err (einsum_ima_ixmb values_1 (grad_data gradient_2)) (\<lambda>e2.
      bind_err (np_reshape (scale factor e2) [int (length samples_2), 3, - 1]) (\<lambda>gradient_data_2.
      bind_err (accumulate_rows gradients_samples (zip samples_2 [0..<hd (shape gradient_data_2)])
                  gradient_data_2 gd1) (\<lambda>gd2.
        if grad_components gradient_1 = [] then Inl IndexError
        else if names (hd (grad_components gradient_1)) \<noteq> [''direction''] then Inl AssertionError
        else Inr \<lparr>grad_data = gd2,
                  grad_samples = \<lparr>names = names (grad_samples gradient_1),
                                  lvalues = gradients_samples\<rparr>,
                  grad_components = [hd (grad_components gradient_1)]\<rparr>))))))))))))"

text \<open>The body of the inner loop from \<open>properties = ...\<close> on, for a given factor:
  \<open>None\<close> is the \<open>continue\<close> taken when a gradient sample set is empty, \<open>Some\<close> the
  block that is appended.\<close>

definition power_spectrum_block ::
  "real \<Rightarrow> tensor_block \<Rightarrow> tensor_block \<Rightarrow> error + tensor_block option" where
  "power_spectrum_block factor spx_1 spx_2 =
     bind_err (einsum_ima_imb (block_values spx_1) (block_values spx_2)) (\<lambda>e.
     bind_err (axis_len (scale factor e) 0) (\<lambda>n.
     bind_err (np_reshape (scale factor e) [int n, - 1]) (\<lambda>v.
     let b = \<lparr>block_values = v,
              samples = samples spx_1,
              components = [],
              properties = power_spectrum_properties spx_1 spx_2,
              gradients = []\<rparr>
     in
     bind_err (axis_len v 1) (\<lambda>n_properties.
       if has_gradient spx_1 ''positions'' then
         bind_err (gradient_of spx_1 ''positions'') (\<lambda>gradient_1.
         bind_err (gradient_of spx_2 ''positions'') (\<lambda>gradient_2.
           if length (lvalues (grad_samples gradient_1)) = 0
              \<or> length (lvalues (grad_samples gradient_2)) = 0
           then Inr None
           else
             bind_err (power_spectrum_gradient factor spx_1 spx_2 n_properties
                         gradient_1 gradient_2) (\<lambda>g.
               Inr (Some (add_gradient b ''positions'' (grad_data g) (grad_samples g)
                            (grad_components g))))))
       else Inr (Some b)))))"

subsection \<open>The loops\<close>

definition unpack3 :: "int list \<Rightarrow> error + int \<times> int \<times> int" where
  "unpack3 row =
     (case row of
        [a, b, c] \<Rightarrow> Inr (a, b, c)
      | _ \<Rightarrow> Inl (ValueError ''wrong number of values to unpack''))"

text \<open>One turn of the inner loop. The result is the value of \<open>spx_1\<close> after the turn (the
  source assigns the sliced block to the variable of the outer loop, so that it is
  what the next turns see) and the key and block appended, if any.\<close>

definition combine_pair ::
  "slicer \<Rightarrow> bool \<Rightarrow> int \<times> int \<times> int \<Rightarrow> tensor_block \<Rightarrow> int list \<times> tensor_block \<Rightarrow>
   error + tensor_block \<times> (int list \<times> tensor_block) option" where
  "combine_pair slice_block use_same key_1 spx_1 item_2 =
     (case key_1 of (l1, cs1, ns1) \<Rightarrow>
      bind_err (unpack3 (fst item_2)) (\<lambda>(l2, cs2, ns2).
        if l1 \<noteq> l2 \<or> cs1 \<noteq> cs2 then Inr (spx_1, None)
        else
          bind_err (restrict_to_common slice_block spx_1 (snd item_2)) (\<lambda>(s1, s2).
          bind_err (contraction_factor use_same l1 ns1 ns2) (\<lambda>f.
            case f of
              None \<Rightarrow> Inr (s1, None)
            | Some factor \<Rightarrow>
                bind_err (power_spectrum_block factor s1 s2) (\<lambda>r.
                  Inr (s1, map_option (\<lambda>b. ([l1, cs1, ns1, ns2], b)) r))))))"

fun inner_loop ::
  "slicer \<Rightarrow> bool \<Rightarrow> int \<times> int \<times> int \<Rightarrow> tensor_block \<Rightarrow> (int list \<times> tensor_block) list \<Rightarrow>
   (int list \<times> tensor_block) list \<Rightarrow> error + (int list \<times> tensor_block) list" where
  "inner_loop slice_block use_same key_1 spx_1 [] out = Inr out"
| "inner_loop slice_block use_same key_1 spx_1 (item_2 # rest) out =
     bind_err (combine_pair slice_block use_same key_1 spx_1 item_2) (\<lambda>(spx_1', r).
       inner_loop slice_block use_same key_1 spx_1' rest
         (case r of None \<Rightarrow> out | Some kb \<Rightarrow> out @ [kb]))"

fun outer_loop ::
  "slicer \<Rightarrow> bool \<Rightarrow> (int list \<times> tensor_block) list \<Rightarrow> (int list \<times> tensor_block) list \<Rightarrow>
   (int list \<times> tensor_block) list \<Rightarrow> error + (int list \<times> tensor_block) list" where
  "outer_loop slice_block use_same [] items_2 out = Inr out"
| "outer_loop slice_block use_same (item_1 # rest) items_2 out =
     bind_err (unpack3 (fst item_1)) (\<lambda>key_1.
     bind_err (inner_loop slice_block use_same key_1 (snd item_1) items_2 out) (\<lambda>out'.
       outer_loop slice_block use_same rest items_2 out'))"

definition expansion_key_names :: "string list" where
  "expansion_key_names = [''spherical_harmonics_l'', ''species_center'', ''species_neighbor'']"

text \<open>Iteration over a collection: its key rows with their blocks.\<close>

definition items :: "descriptor \<Rightarrow> (int list \<times> tensor_block) list" where
  "items d = zip (lvalues (keys d)) (blocks d)"

text \<open>\<open>compute_power_spectrum\<close> up to \<open>TensorMap(keys, blocks)\<close>, the collection on
  which the storage library's \<open>keys_to_properties\<close> is then called.\<close>

definition compute_power_spectrum ::
  "slicer \<Rightarrow> descriptor \<Rightarrow> descriptor option \<Rightarrow> error + descriptor" where
  "compute_power_spectrum slice_block spherical_expansion_1 spherical_expansion_2 =
     (if names (keys spherical_expansion_1) \<noteq> expansion_key_names then Inl AssertionError
      else
        bind_err (case spherical_expansion_2 of
                    None \<Rightarrow> Inr (True, spherical_expansion_1)
                  | Some e2 \<Rightarrow>
                      if names (keys e2) \<noteq> expansion_key_names then Inl AssertionError
                      else Inr (False, e2)) (\<lambda>(use_same_spherical_expansions, expansion_2).
        bind_err (outer_loop slice_block use_same_spherical_expansions
                    (items spherical_expansion_1) (items expansion_2) []) (\<lambda>out.
          Inr \<lparr>keys = \<lparr>names = [''spherical_harmonics_l'', ''species_center'',
                                ''species_neighbor_1'', ''species_neighbor_2''],
                       lvalues = map fst out\<rparr>,
               blocks = map snd out\<rparr>)))"

section \<open>Notions used to state the properties\<close>

text \<open>The calculator numbers the atoms of all structures in one sequence; this is the
  global index of the first atom of structure \<open>k\<close>.\<close>

definition atom_offset :: "atoms list \<Rightarrow> nat \<Rightarrow> nat" where
  "atom_offset frames k = sum_list (map len (take k frames))"

text \<open>The calculator's metadata is consistent with the frames when each row names a
  structure and the global index of one of the atoms of that structure.\<close>

definition info_consistent :: "atoms list \<Rightarrow> info_row list \<Rightarrow> bool" where
  "info_consistent frames info =
     list_all (\<lambda>(s, c, sp).
        0 \<le> s \<and> nat s < length frames \<and>
        int (atom_offset frames (nat s)) \<le> c \<and>
        c < int (atom_offset frames (nat s) + len (frames ! nat s))) info"



text \<open>The gradient array of the calculator in the shape the builder gives it, where
  the reshape succeeds.\<close>

definition gradient_array :: "hypers \<Rightarrow> int list \<Rightarrow> manager \<Rightarrow> ndarray" where
  "gradient_array h gs m =
     projr (np_reshape (features_gradient m)
              [int (shape (features_gradient m) ! 0), int (length gs), int (max_radial h), - 1])"

text \<open>The gradient entries of the block of a center species and a neighbor species:
  for each center of that species that the calculator reported, in order, the rows of
  the gradient metadata with the structure and the atom of the center and with the
  neighbor species.\<close>

definition block_gradient_entries :: "manager \<Rightarrow> int \<Rightarrow> int \<Rightarrow> nat list" where
  "block_gradient_entries m center_species neighbor_species =
     concat (map (\<lambda>(structure, center, species).
                    gradient_mask (gradients_info m) structure center neighbor_species)
               [r \<leftarrow> representation_info m. snd (snd r) = center_species])"

text \<open>The value of \<open>np.linalg.norm(block_gradient)\<close> for a gradient entry and the
  block of \<open>l\<close> and of a neighbor species, where the slice can be taken.\<close>

definition entry_norm :: "hypers \<Rightarrow> int list \<Rightarrow> manager \<Rightarrow> nat \<Rightarrow> int \<Rightarrow> nat \<Rightarrow> real" where
  "entry_norm h gs m l neighbor_species grad_index =
     linalg_norm (projr (block_gradient_at (gradient_array h gs m)
                           (projr (list_index gs neighbor_species)) (lm_slices h ! l) grad_index))"

text \<open>The value of the variable \<open>spx_1\<close> of the outer loop of
  \<open>compute_power_spectrum\<close> when turn \<open>j\<close> of the inner loop begins: the block of the
  outer key, as the earlier turns of the inner loop have left it (a turn that
  restricts the blocks to their common samples assigns the restricted block to it).\<close>

fun spx_1_at ::
  "slicer \<Rightarrow> bool \<Rightarrow> int \<times> int \<times> int \<Rightarrow> tensor_block \<Rightarrow> (int list \<times> tensor_block) list \<Rightarrow>
   nat \<Rightarrow> error + tensor_block" where
  "spx_1_at slice_block use_same key_1 spx_1 items_2 0 = Inr spx_1"
| "spx_1_at slice_block use_same key_1 spx_1 [] (Suc j) = Inr spx_1"
| "spx_1_at slice_block use_same key_1 spx_1 (item_2 # rest) (Suc j) =
     bind_err (combine_pair slice_block use_same key_1 spx_1 item_2) (\<lambda>(spx_1', r).
       spx_1_at slice_block use_same key_1 spx_1' rest j)"

section \<open>Example inputs\<close>

text \<open>Two structures of one atom each, oxygen and hydrogen, with \<open>max_angular = 1\<close> and
  \<open>max_radial = 1\<close>; a calculator that answers with two centers, all coefficients
  equal to one, and (when asked) the gradient rows of the two self pairs, of which
  only the first is not zero.\<close>

definition ex_hypers :: hypers where
  "ex_hypers = \<lparr>max_angular = 1, max_radial = 1, compute_gradients = False,
      global_species = [], expansion_by_species_method = []\<rparr>"

definition ex_hypers_grad :: hypers where
  "ex_hypers_grad = \<lparr>max_angular = 1, max_radial = 1, compute_gradients = True,
      global_species = [], expansion_by_species_method = []\<rparr>"

definition ex_frames :: "atoms list" where
  "ex_frames = [\<lparr>numbers = [8], positions = [(0, 0, 0)], cell = []\<rparr>,
                \<lparr>numbers = [1], positions = [(0, 0, 0)], cell = []\<rparr>]"

definition ex_manager :: manager where
  "ex_manager = \<lparr>features = \<lparr>shape = [2, 8], elem = (\<lambda>idx. 1)\<rparr>,
                 features_gradient = \<lparr>shape = [6, 0], elem = (\<lambda>idx. 0)\<rparr>,
                 representation_info = [(0, 0, 8), (1, 1, 1)],
                 gradients_info = []\<rparr>"

definition ex_manager_grad :: manager where
  "ex_manager_grad = \<lparr>features = \<lparr>shape = [2, 8], elem = (\<lambda>idx. 1)\<rparr>,
                      features_gradient = \<lparr>shape = [6, 8], elem = (\<lambda>idx. if hd idx < 3 then 1 else 0)\<rparr>,
                      representation_info = [(0, 0, 8), (1, 1, 1)],
                      gradients_info = [(0, 0, 0, 0, 8), (1, 1, 1, 0, 1)]\<rparr>"

definition ex_rascal :: calculator where
  "ex_rascal h fs = Inr (if compute_gradients h then ex_manager_grad else ex_manager)"



text \<open>Slicing does not create gradients: a block without a "positions" gradient has
  none after \<open>slice_block\<close>.\<close>

definition slicer_keeps_no_gradient :: "slicer \<Rightarrow> bool" where
  "slicer_keeps_no_gradient slice_block =
     (\<forall>b ls b'. slice_block b ls = Inr b' \<longrightarrow> \<not> has_gradient b ''positions''
        \<longrightarrow> \<not> has_gradient b' ''positions'')"

text \<open>Spherical expansion blocks for \<open>l = 0\<close> with one sample and the two radial
  channels \<open>n = 0, 1\<close>, holding the coefficients \<open>1\<close> and \<open>2\<close>: without gradient, with
  a gradient of one sample, and with the explicit empty gradient. The collection
  \<open>ex_expansion\<close> has the neighbor species \<open>1\<close> (gradient with one sample) and \<open>8\<close>
  (empty gradient) around the center species \<open>1\<close>; \<open>ex_expansion_plain\<close> is the same
  without gradients.\<close>

definition ex_block :: tensor_block where
  "ex_block =
     \<lparr>block_values = \<lparr>shape = [1, 1, 2], elem = (\<lambda>idx. real (idx ! 2) + 1)\<rparr>,
      samples = \<lparr>names = [''structure'', ''center''], lvalues = [[0, 0]]\<rparr>,
      components = [\<lparr>names = [''spherical_harmonics_m''], lvalues = [[0]]\<rparr>],
      properties = \<lparr>names = [''n''], lvalues = [[0], [1]]\<rparr>,
      gradients = []\<rparr>"

definition ex_gradient :: gradient where
  "ex_gradient =
     \<lparr>grad_data = \<lparr>shape = [1, 3, 1, 2], elem = (\<lambda>idx. 1)\<rparr>,
      grad_samples = \<lparr>names = [''sample'', ''structure'', ''atom''], lvalues = [[0, 0, 0]]\<rparr>,
      grad_components = [\<lparr>names = [''direction''], lvalues = [[0], [1], [2]]\<rparr>,
                         \<lparr>names = [''spherical_harmonics_m''], lvalues = [[0]]\<rparr>]\<rparr>"

definition ex_empty_gradient :: gradient where
  "ex_empty_gradient =
     \<lparr>grad_data = zeros [0, 3, 1, 2],
      grad_samples = \<lparr>names = [''sample'', ''structure'', ''atom''], lvalues = []\<rparr>,
      grad_components = [\<lparr>names = [''direction''], lvalues = [[0], [1], [2]]\<rparr>,
                         \<lparr>names = [''spherical_harmonics_m''], lvalues = [[0]]\<rparr>]\<rparr>"

definition ex_block_grad :: tensor_block where
  "ex_block_grad = ex_block\<lparr>gradients := [(''positions'', ex_gradient)]\<rparr>"

definition ex_block_empty_grad :: tensor_block where
  "ex_block_empty_grad = ex_block\<lparr>gradients := [(''positions'', ex_empty_gradient)]\<rparr>"

definition ex_expansion :: descriptor where
  "ex_expansion =
     \<lparr>keys = \<lparr>names = expansion_key_names, lvalues = [[0, 1, 1], [0, 1, 8]]\<rparr>,
      blocks = [ex_block_grad, ex_block_empty_grad]\<rparr>"

definition ex_expansion_plain :: descriptor where
  "ex_expansion_plain =
     \<lparr>keys = \<lparr>names = expansion_key_names, lvalues = [[0, 1, 1], [0, 1, 8]]\<rparr>,
      blocks = [ex_block, ex_block]\<rparr>"

text \<open>A slicer for the examples; their samples agree, so that it is never called.\<close>

definition ex_slicer :: slicer where
  "ex_slicer b ls = Inr b"

section \<open>Auxiliary facts\<close>

lemma bind_err_Inr: "bind_err m f = Inr y \<longleftrightarrow> (\<exists>x. m = Inr x \<and> f x = Inr y)"
  by (cases m) (simp_all add: bind_err_def)

lemma bind_err_simps [simp]:
  "bind_err (Inl e) f = Inl e" "bind_err (Inr x) f = f x"
  by (simp_all add: bind_err_def)

lemma map_err_length: "map_err f xs = Inr ys \<Longrightarrow> length ys = length xs"
  by (induction xs arbitrary: ys) (auto simp: bind_err_Inr)

lemma map_err_nth: "map_err f xs = Inr ys \<Longrightarrow> i < length xs \<Longrightarrow> f (xs ! i) = Inr (ys ! i)"
proof (induction xs arbitrary: ys i)
  case Nil
  then show ?case by simp
next
  case (Cons x xs)
  then obtain y ys' where y: "f x = Inr y" and ys': "map_err f xs = Inr ys'" and e: "ys = y # ys'"
    by (auto simp: bind_err_Inr)
  show ?case
  proof (cases i)
    case 0
    then show ?thesis using y e by simp
  next
    case (Suc j)
    then show ?thesis using Cons.IH [OF ys', of j] Cons.prems(2) e by simp
  qed
qed

section \<open>Failures of the pair expansion and of the backward pass\<close>

text \<open>
  Claim C7. When the hyperparameters ask for gradients, \<open>RascalPairExpansion.compute\<close>
  fails at once with the exception "Pair expansion with gradient is not implemented":
  whatever the calculator and the frames are, the result is that exception and the
  list of calls made to the calculator is empty, so nothing was computed before.
\<close>

theorem pair_compute_gradients_unsupported:
  "compute_gradients h \<Longrightarrow>
     pair_compute h rascal frames =
       ([], Inl (Exception ''Pair expansion with gradient is not implemented''))"
  by (simp add: pair_compute_def)

theorem pair_compute_gradients_unsupported_witness:
  "pair_compute
     \<lparr>max_angular = 1, max_radial = 2, compute_gradients = True,
      global_species = [], expansion_by_species_method = []\<rparr>
     (\<lambda>h fs. Inl (CalculatorError ''never called''))
     [\<lparr>numbers = [1, 8], positions = [(0, 0, 0), (0, 0, 1)], cell = []\<rparr>]
   = ([], Inl (Exception ''Pair expansion with gradient is not implemented''))"
  using pair_compute_gradients_unsupported
    [of "\<lparr>max_angular = 1, max_radial = 2, compute_gradients = True,
          global_species = [], expansion_by_species_method = []\<rparr>"
        "\<lambda>h fs. Inl (CalculatorError ''never called'')"
        "[\<lparr>numbers = [1, 8], positions = [(0, 0, 0), (0, 0, 1)], cell = []\<rparr>]"]
  by simp

text \<open>
  Claim C9. When \<open>backward\<close> is asked for the gradient with respect to the positions and
  the second axis of the saved gradient coefficients has width zero, it raises:
  \<open>ValueError\<close> "missing gradients, please set `compute_gradients` to True", unless the
  gradient with respect to the calculator was requested too, in which case the
  \<open>ValueError\<close> of that earlier test is raised. No gradient array is returned.
\<close>

theorem backward_missing_gradients:
  assumes "needs_input_grad c = (needs_calculator, True, needs_cell, needs_numbers)"
    and "shape (saved_grad_spherical_expansion c) = [n, 0]"
  shows "backward c grad_output =
           Inl (if needs_calculator
                then ValueError ''can not compute gradients w.r.t. calculator''
                else ValueError ''missing gradients, please set `compute_gradients` to True'')"
  using assms by (simp add: backward_def backward_positions_def axis_len_def)

theorem backward_missing_gradients_witness:
  "backward \<lparr>needs_input_grad = (False, True, False, False),
             saved_grad_spherical_expansion = zeros [6, 0],
             saved_grad_info = [(0, 0, 0, 0, 1), (0, 0, 1, 0, 1)]\<rparr> (zeros [2, 4])
   = Inl (ValueError ''missing gradients, please set `compute_gradients` to True'')"
  using backward_missing_gradients
    [of "\<lparr>needs_input_grad = (False, True, False, False),
          saved_grad_spherical_expansion = zeros [6, 0],
          saved_grad_info = [(0, 0, 0, 0, 1), (0, 0, 1, 0, 1)]\<rparr>"
        False False False 6 "zeros [2, 4]"]
  by (simp add: zeros_def)

text \<open>
  Claim C6. A request for the gradient with respect to the calculator or to the cell
  makes \<open>backward\<close> raise (lemma \<open>backward_calculator_or_cell\<close>). A request for the
  gradient with respect to the atomic numbers does not: the test that should read
  \<open>needs_input_grad[3]\<close> reads \<open>needs_input_grad[2]\<close> again, so with only the fourth
  flag set \<open>backward\<close> returns four \<open>None\<close> and the message "can not compute gradients
  w.r.t. atomic numbers" can never be raised.
\<close>

lemma backward_calculator_or_cell:
  assumes "needs_input_grad c = (needs_calculator, needs_positions, needs_cell, needs_numbers)"
    and "needs_calculator \<or> needs_cell"
  shows "\<exists>e. backward c grad_output = Inl e"
  using assms
  by (cases "backward_positions c grad_output") (auto simp: backward_def)

theorem backward_numbers_silent:
  "backward \<lparr>needs_input_grad = (False, False, False, True),
             saved_grad_spherical_expansion = zeros [0, 0],
             saved_grad_info = []\<rparr> (zeros [1, 1])
   = Inr (None, None, None, None)"
  by (simp add: backward_def backward_positions_def)

section \<open>The spherical expansion builder\<close>

lemma upt_small: "[0..<1] = [0]" "[0..<2] = [0, 1]" "[0..<3] = [0, 1, 2]"
  by (simp_all add: upt_rec)

lemma length_sparse_keys:
  "length (sparse_keys h gs) = (max_angular h + 1) * (length gs)\<^sup>2"
  by (simp add: sparse_keys_def length_concat comp_def sum_list_triv power2_eq_square)

lemma sparse_keys_product:
  "sparse_keys h gs = List.product [0..<max_angular h + 1] (List.product gs gs)"
  unfolding sparse_keys_def product_concat_map
  by (simp add: map_concat comp_def)

lemma distinct_sparse_keys: "distinct gs \<Longrightarrow> distinct (sparse_keys h gs)"
  by (simp add: sparse_keys_product distinct_product)

lemma map_err_set: "map_err f xs = Inr ys \<Longrightarrow> y \<in> set ys \<Longrightarrow> \<exists>x \<in> set xs. f x = Inr y"
  by (induction xs arbitrary: ys) (auto simp: bind_err_Inr)

lemma length_filter_nth:
  "length [i \<leftarrow> [0..<length xs]. P (xs ! i)] = length (filter P xs)"
proof -
  have "filter P xs = filter P (map ((!) xs) [0..<length xs])"
    by (simp add: map_nth)
  also have "\<dots> = map ((!) xs) (filter (P \<circ> (!) xs) [0..<length xs])"
    by (simp add: filter_map)
  finally show ?thesis by (simp add: comp_def)
qed

lemma max_angular_user_defined [simp]: "max_angular (user_defined h gs) = max_angular h"
  and max_radial_user_defined [simp]: "max_radial (user_defined h gs) = max_radial h"
  and compute_gradients_user_defined [simp]: "compute_gradients (user_defined h gs) = compute_gradients h"
  by (simp_all add: user_defined_def)

lemma species_list:
  "sort (remdups (concat (map numbers frames))) = sorted_list_of_set (\<Union>f \<in> set frames. set (numbers f))"
  "length (sort (remdups (concat (map numbers frames)))) = card (\<Union>f \<in> set frames. set (numbers f))"
  "distinct (sort (remdups (concat (map numbers frames))))"
proof -
  have s: "set (concat (map numbers frames)) = (\<Union>f \<in> set frames. set (numbers f))" by auto
  show "sort (remdups (concat (map numbers frames))) = sorted_list_of_set (\<Union>f \<in> set frames. set (numbers f))"
    using sorted_list_of_set_sort_remdups [of "concat (map numbers frames)"] s by simp
  show "length (sort (remdups (concat (map numbers frames)))) = card (\<Union>f \<in> set frames. set (numbers f))"
    using s by (simp add: length_remdups_card_conv)
  show "distinct (sort (remdups (concat (map numbers frames))))" by simp
qed

text \<open>What a successful run of the builder went through.\<close>

lemma spherical_compute_Inr:
  assumes "spherical_compute hypers0 rascal frames = Inr d"
  obtains m data4 gradients4 where
    "frames \<noteq> []"
    "rascal (user_defined hypers0 (sort (remdups (concat (map numbers frames))))) frames = Inr m"
    "map_err (spherical_block (user_defined hypers0 (sort (remdups (concat (map numbers frames)))))
        (sort (remdups (concat (map numbers frames)))) data4 gradients4
        (representation_info m) (gradients_info m) (global_to_per_structure_atom_id frames))
        (sparse_keys (user_defined hypers0 (sort (remdups (concat (map numbers frames)))))
           (sort (remdups (concat (map numbers frames))))) = Inr (blocks d)"
    "lvalues (keys d) = map (\<lambda>(l, cs, ns). [int l, cs, ns])
        (sparse_keys (user_defined hypers0 (sort (remdups (concat (map numbers frames)))))
           (sort (remdups (concat (map numbers frames)))))"
  using assms
  unfolding spherical_compute_def unique_species_def Let_def
  by (auto simp: bind_err_Inr split: if_splits)

lemma spherical_block_Inr:
  assumes "spherical_block h gs data4 gradients4 info grad_info g2p (l, cs, ns) = Inr b"
  obtains nsi selected grad sample_rows where
    "list_index gs ns = Inr nsi"
    "select_block data4 [i \<leftarrow> [0..<length info]. snd (snd (info ! i)) = cs] nsi (lm_slices h ! l) = Inr selected"
    "(if compute_gradients h
      then bind_err (block_gradients_of h gradients4 grad_info g2p nsi (lm_slices h ! l) ns l
             (map (\<lambda>i. (fst (info ! i), fst (snd (info ! i)))) [i \<leftarrow> [0..<length info]. snd (snd (info ! i)) = cs]))
             (\<lambda>g. Inr (Some g))
      else Inr None) = Inr grad"
    "map_err (\<lambda>(structure, center). bind_err (local_atom_id g2p center) (\<lambda>c. Inr [structure, c]))
       (map (\<lambda>i. (fst (info ! i), fst (snd (info ! i)))) [i \<leftarrow> [0..<length info]. snd (snd (info ! i)) = cs])
     = Inr sample_rows"
    "b = (case grad of
            None \<Rightarrow> \<lparr>block_values = swapaxes12 selected,
                 samples = \<lparr>names = [''structure'', ''center''], lvalues = sample_rows\<rparr>,
                 components = [spherical_component_labels l],
                 properties = feature_labels h,
                 gradients = []\<rparr>
          | Some (block_gradients, gradient_samples) \<Rightarrow>
              add_gradient \<lparr>block_values = swapaxes12 selected,
                 samples = \<lparr>names = [''structure'', ''center''], lvalues = sample_rows\<rparr>,
                 components = [spherical_component_labels l],
                 properties = feature_labels h,
                 gradients = []\<rparr> ''positions'' block_gradients gradient_samples
                [spatial_component_labels, spherical_component_labels l])"
  using assms unfolding spherical_block_def Let_def
  by (auto simp: bind_err_Inr)

lemma spherical_block_shape:
  assumes "spherical_block h gs data4 gradients4 info grad_info g2p (l, cs, ns) = Inr b"
  shows "components b = [spherical_component_labels l]"
    and "properties b = feature_labels h"
    and "names (samples b) = [''structure'', ''center'']"
    and "length (lvalues (samples b)) = length [r \<leftarrow> info. snd (snd r) = cs]"
proof -
  from assms obtain nsi selected grad sample_rows where
    rows: "map_err (\<lambda>(structure, center). bind_err (local_atom_id g2p center) (\<lambda>c. Inr [structure, c]))
       (map (\<lambda>i. (fst (info ! i), fst (snd (info ! i)))) [i \<leftarrow> [0..<length info]. snd (snd (info ! i)) = cs])
     = Inr sample_rows"
    and b: "b = (case grad of
            None \<Rightarrow> \<lparr>block_values = swapaxes12 selected,
                 samples = \<lparr>names = [''structure'', ''center''], lvalues = sample_rows\<rparr>,
                 components = [spherical_component_labels l],
                 properties = feature_labels h,
                 gradients = []\<rparr>
          | Some (block_gradients, gradient_samples) \<Rightarrow>
              add_gradient \<lparr>block_values = swapaxes12 selected,
                 samples = \<lparr>names = [''structure'', ''center''], lvalues = sample_rows\<rparr>,
                 components = [spherical_component_labels l],
                 properties = feature_labels h,
                 gradients = []\<rparr> ''positions'' block_gradients gradient_samples
                [spatial_component_labels, spherical_component_labels l])"
    by (rule spherical_block_Inr)
  show "components b = [spherical_component_labels l]"
    and "properties b = feature_labels h"
    and "names (samples b) = [''structure'', ''center'']"
    using b by (auto simp: add_gradient_def split: option.splits)
  have "lvalues (samples b) = sample_rows"
    using b by (auto simp: add_gradient_def split: option.splits)
  moreover have "length sample_rows = length [i \<leftarrow> [0..<length info]. snd (snd (info ! i)) = cs]"
    using map_err_length [OF rows] by simp
  ultimately show "length (lvalues (samples b)) = length [r \<leftarrow> info. snd (snd r) = cs]"
    using length_filter_nth [of "\<lambda>r. snd (snd r) = cs" info] by simp
qed

text \<open>The two example runs, evaluated.\<close>

lemmas ex_defs = spherical_compute_def ex_hypers_def ex_hypers_grad_def ex_rascal_def ex_frames_def
  ex_manager_def ex_manager_grad_def unique_species_def
  user_defined_def axis_len_def np_reshape_def sparse_keys_def spherical_block_def
  lm_slices_def select_block_def reshaped_def slice_bounds_def global_to_per_structure_atom_id_def
  len_def local_atom_id_def py_index_def Let_def

lemma ex_samples:
  "\<exists>d. spherical_compute ex_hypers ex_rascal ex_frames = Inr d
     \<and> map (\<lambda>b. lvalues (samples b)) (blocks d) =
          [[[1, 0]], [[1, 0]], [[0, 0]], [[0, 0]], [[1, 0]], [[1, 0]], [[0, 0]], [[0, 0]]]"
  by (simp add: ex_defs upt_small)

lemma ex_gradients:
  "\<exists>d. spherical_compute ex_hypers_grad ex_rascal ex_frames = Inr d
     \<and> map (\<lambda>b. map (\<lambda>(n, g). (n, lvalues (grad_samples g), shape (grad_data g))) (gradients b)) (blocks d) =
       [[(''positions'', [], [0, 3, 1, 1])], [(''positions'', [], [0, 3, 1, 1])],
        [(''positions'', [], [0, 3, 1, 1])], [(''positions'', [[0, 0, 0]], [1, 3, 1, 1])],
        [(''positions'', [], [0, 3, 3, 1])], [(''positions'', [], [0, 3, 3, 1])],
        [(''positions'', [], [0, 3, 3, 1])], [(''positions'', [[0, 0, 0]], [1, 3, 3, 1])]]"
  by (simp add: ex_defs upt_small
     block_gradients_of_def gradient_mask_def block_gradient_at_def select_rows_def swapaxes12_def
     linalg_norm_def concatenate_def ravel_def add_gradient_def zeros_def
     spherical_component_labels_def feature_labels_def)

text \<open>
  Claim C3. Whenever \<open>RascalSphericalExpansion.compute\<close> returns a collection, it has
  exactly \<open>(max_angular + 1) * |S|\<^sup>2\<close> blocks, \<open>S\<close> being the set of species of all
  frames: the keys are the rows \<open>[l, center_species, neighbor_species]\<close> of the full
  cross product, in that order and without repetition, there is one block per key,
  and the block of a key carries the \<open>2 l + 1\<close> components of its \<open>l\<close> and one sample per
  center of its center species that the calculator reported -- none when there is no
  such center. The run can only fail where the calculator fails or its arrays do
  not have the announced shape, or on an empty list of frames.
\<close>

theorem spherical_compute_one_block_per_key:
  assumes "spherical_compute hypers0 rascal frames = Inr d"
  shows "length (blocks d) = (max_angular hypers0 + 1) * (card (\<Union>f \<in> set frames. set (numbers f)))\<^sup>2
    \<and> lvalues (keys d) =
        [[int l, center_species, neighbor_species].
           l \<leftarrow> [0..<max_angular hypers0 + 1],
           center_species \<leftarrow> sorted_list_of_set (\<Union>f \<in> set frames. set (numbers f)),
           neighbor_species \<leftarrow> sorted_list_of_set (\<Union>f \<in> set frames. set (numbers f))]
    \<and> distinct (lvalues (keys d))
    \<and> length (lvalues (keys d)) = length (blocks d)
    \<and> (\<exists>m. rascal (user_defined hypers0 (sorted_list_of_set (\<Union>f \<in> set frames. set (numbers f)))) frames = Inr m
         \<and> (\<forall>i < length (blocks d).
               components (blocks d ! i) = [spherical_component_labels (nat (lvalues (keys d) ! i ! 0))]
             \<and> length (lvalues (samples (blocks d ! i))) =
                 length [r \<leftarrow> representation_info m. snd (snd r) = lvalues (keys d) ! i ! 1]))"
proof -
  let ?gs = "sort (remdups (concat (map numbers frames)))"
  let ?h = "user_defined hypers0 ?gs"
  from assms obtain m data4 gradients4 where
    m: "rascal ?h frames = Inr m"
    and bs: "map_err (spherical_block ?h ?gs data4 gradients4
        (representation_info m) (gradients_info m) (global_to_per_structure_atom_id frames))
        (sparse_keys ?h ?gs) = Inr (blocks d)"
    and ks: "lvalues (keys d) = map (\<lambda>(l, cs, ns). [int l, cs, ns]) (sparse_keys ?h ?gs)"
    by (rule spherical_compute_Inr)
  have len: "length (blocks d) = length (sparse_keys ?h ?gs)"
    using map_err_length [OF bs] .
  have c1: "length (blocks d) = (max_angular hypers0 + 1) * (card (\<Union>f \<in> set frames. set (numbers f)))\<^sup>2"
    using len unfolding length_sparse_keys species_list(2) by simp
  have c2: "lvalues (keys d) =
        [[int l, center_species, neighbor_species].
           l \<leftarrow> [0..<max_angular hypers0 + 1],
           center_species \<leftarrow> sorted_list_of_set (\<Union>f \<in> set frames. set (numbers f)),
           neighbor_species \<leftarrow> sorted_list_of_set (\<Union>f \<in> set frames. set (numbers f))]"
    unfolding ks sparse_keys_def species_list(1)
    by (simp add: map_concat comp_def)
  have inj: "inj (\<lambda>(l :: nat, cs :: int, ns :: int). [int l, cs, ns])"
    by (auto simp: inj_on_def)
  have c3: "distinct (lvalues (keys d))"
    unfolding ks using distinct_sparse_keys [OF species_list(3), of ?h frames]
    by (simp add: distinct_map inj_on_subset [OF inj])
  have c4: "length (lvalues (keys d)) = length (blocks d)"
    using ks len by simp
  have c5: "components (blocks d ! i) = [spherical_component_labels (nat (lvalues (keys d) ! i ! 0))]
             \<and> length (lvalues (samples (blocks d ! i))) =
                 length [r \<leftarrow> representation_info m. snd (snd r) = lvalues (keys d) ! i ! 1]"
    if i: "i < length (blocks d)" for i
  proof -
    obtain l cs ns where k: "sparse_keys ?h ?gs ! i = (l, cs, ns)"
      by (cases "sparse_keys ?h ?gs ! i") auto
    have "spherical_block ?h ?gs data4 gradients4
        (representation_info m) (gradients_info m) (global_to_per_structure_atom_id frames) (l, cs, ns)
        = Inr (blocks d ! i)"
      using map_err_nth [OF bs, of i] i len k by simp
    from spherical_block_shape(1) [OF this] spherical_block_shape(4) [OF this]
    show ?thesis using ks k i len by simp
  qed
  from c1 c2 c3 c4 c5 m show ?thesis
    unfolding species_list(1) by blast
qed

theorem spherical_compute_one_block_per_key_witness:
  "\<exists>d. spherical_compute ex_hypers ex_rascal ex_frames = Inr d
      \<and> length (blocks d) = 8
      \<and> lvalues (keys d) = [[0, 1, 1], [0, 1, 8], [0, 8, 1], [0, 8, 8],
                             [1, 1, 1], [1, 1, 8], [1, 8, 1], [1, 8, 8]]"
proof -
  from ex_samples obtain d where d: "spherical_compute ex_hypers ex_rascal ex_frames = Inr d"
    by blast
  have s: "(\<Union>f \<in> set ex_frames. set (numbers f)) = {1, 8}"
    by (auto simp: ex_frames_def)
  have l: "sorted_list_of_set {1, 8 :: int} = [1, 8]"
    by simp
  have "length (blocks d) = 8
      \<and> lvalues (keys d) = [[0, 1, 1], [0, 1, 8], [0, 8, 1], [0, 8, 8],
                             [1, 1, 1], [1, 1, 8], [1, 8, 1], [1, 8, 8]]"
    using spherical_compute_one_block_per_key [OF d] unfolding s l
    by (simp add: ex_hypers_def upt_small power2_eq_square)
  with d show ?thesis by blast
qed

text \<open>The table that maps a global atom index to the index inside its structure.\<close>

lemma g2p_length:
  "length (global_to_per_structure_atom_id frames) = sum_list (map len frames)"
  by (induction frames) (simp_all add: global_to_per_structure_atom_id_def)

lemma g2p_Cons:
  "global_to_per_structure_atom_id (f # fs) = [0..<len f] @ global_to_per_structure_atom_id fs"
  by (simp add: global_to_per_structure_atom_id_def)

lemma g2p_nth:
  "k < length frames \<Longrightarrow> j < len (frames ! k) \<Longrightarrow>
     global_to_per_structure_atom_id frames ! (atom_offset frames k + j) = j"
proof (induction frames arbitrary: k)
  case Nil
  then show ?case by simp
next
  case (Cons f fs)
  show ?case
  proof (cases k)
    case 0
    then show ?thesis using Cons.prems
      by (simp add: g2p_Cons atom_offset_def nth_append)
  next
    case (Suc k')
    then have "global_to_per_structure_atom_id fs ! (atom_offset fs k' + j) = j"
      using Cons.IH [of k'] Cons.prems by simp
    then show ?thesis using Suc
      by (simp add: g2p_Cons atom_offset_def nth_append)
  qed
qed

lemma offset_bound:
  "k < length frames \<Longrightarrow> atom_offset frames k + len (frames ! k) \<le> sum_list (map len frames)"
proof -
  assume k: "k < length frames"
  have "frames = take k frames @ frames ! k # drop (Suc k) frames"
    using k by (rule id_take_nth_drop)
  then have "sum_list (map len frames) =
      sum_list (map len (take k frames @ frames ! k # drop (Suc k) frames))"
    by (rule arg_cong)
  then show ?thesis by (simp add: atom_offset_def)
qed

text \<open>
  Claim C4. In every block that \<open>RascalSphericalExpansion.compute\<close> returns, every
  sample row is a pair \<open>[structure, center]\<close> taken from a row
  \<open>(structure, global atom index, species)\<close> of the calculator's metadata, with the
  global index replaced by the index of the atom inside its structure: the global
  index minus the number of atoms of the structures before, which is the entry of the
  table \<open>global_to_per_structure_atom_id\<close> and lies between \<open>0\<close> and the number of atoms
  of that structure. The metadata is assumed consistent with the frames: each row
  names a structure and the global index of one of its atoms.
\<close>

theorem spherical_compute_samples_local:
  assumes "spherical_compute hypers0 rascal frames = Inr d"
    and "rascal (user_defined hypers0 (sorted_list_of_set (\<Union>f \<in> set frames. set (numbers f)))) frames = Inr m"
    and "info_consistent frames (representation_info m)"
    and "b \<in> set (blocks d)"
    and "row \<in> set (lvalues (samples b))"
  shows "\<exists>structure center species.
           (structure, center, species) \<in> set (representation_info m)
         \<and> row = [structure, center - int (atom_offset frames (nat structure))]
         \<and> 0 \<le> row ! 1 \<and> row ! 1 < int (len (frames ! nat structure))
         \<and> row ! 1 = int (global_to_per_structure_atom_id frames ! nat center)"
proof -
  let ?gs = "sort (remdups (concat (map numbers frames)))"
  let ?h = "user_defined hypers0 ?gs"
  let ?g2p = "global_to_per_structure_atom_id frames"
  from assms(1) obtain m' data4 gradients4 where
    m': "rascal ?h frames = Inr m'"
    and bs: "map_err (spherical_block ?h ?gs data4 gradients4
        (representation_info m') (gradients_info m') ?g2p)
        (sparse_keys ?h ?gs) = Inr (blocks d)"
    by (rule spherical_compute_Inr)
  have mm: "m' = m" using m' assms(2) by (simp add: species_list(1))
  let ?info = "representation_info m"
  from map_err_set [OF bs assms(4)] mm obtain l cs ns where
    blk: "spherical_block ?h ?gs data4 gradients4 ?info (gradients_info m) ?g2p (l, cs, ns) = Inr b"
    by auto
  from blk obtain nsi selected grad sample_rows where
    rows: "map_err (\<lambda>(structure, center). bind_err (local_atom_id ?g2p center) (\<lambda>c. Inr [structure, c]))
       (map (\<lambda>i. (fst (?info ! i), fst (snd (?info ! i)))) [i \<leftarrow> [0..<length ?info]. snd (snd (?info ! i)) = cs])
     = Inr sample_rows"
    and b: "b = (case grad of
            None \<Rightarrow> \<lparr>block_values = swapaxes12 selected,
                 samples = \<lparr>names = [''structure'', ''center''], lvalues = sample_rows\<rparr>,
                 components = [spherical_component_labels l],
                 properties = feature_labels ?h,
                 gradients = []\<rparr>
          | Some (block_gradients, gradient_samples) \<Rightarrow>
              add_gradient \<lparr>block_values = swapaxes12 selected,
                 samples = \<lparr>names = [''structure'', ''center''], lvalues = sample_rows\<rparr>,
                 components = [spherical_component_labels l],
                 properties = feature_labels ?h,
                 gradients = []\<rparr> ''positions'' block_gradients gradient_samples
                [spatial_component_labels, spherical_component_labels l])"
    by (rule spherical_block_Inr)
  have "lvalues (samples b) = sample_rows"
    using b by (auto simp: add_gradient_def split: option.splits)
  with assms(5) have "row \<in> set sample_rows" by simp
  from map_err_set [OF rows this] obtain i where
    i: "i < length ?info" and
    r: "bind_err (local_atom_id ?g2p (fst (snd (?info ! i)))) (\<lambda>c. Inr [fst (?info ! i), c]) = Inr row"
    by auto
  obtain s c sp where row_i: "?info ! i = (s, c, sp)" by (cases "?info ! i") auto
  have mem: "(s, c, sp) \<in> set ?info" using nth_mem [OF i] row_i by simp
  with assms(3) have cons: "0 \<le> s" "nat s < length frames"
    "int (atom_offset frames (nat s)) \<le> c"
    "c < int (atom_offset frames (nat s) + len (frames ! nat s))"
    by (auto simp: info_consistent_def list_all_iff)
  define j where "j = nat c - atom_offset frames (nat s)"
  have c: "nat c = atom_offset frames (nat s) + j" "j < len (frames ! nat s)" "0 \<le> c"
    unfolding j_def using cons by linarith+
  have inrange: "c < int (length ?g2p)"
    using cons(4) offset_bound [OF cons(2)] by (simp add: g2p_length)
  have loc: "?g2p ! nat c = j"
    using g2p_nth [OF cons(2) c(2)] c(1) by simp
  have "row = [s, int (?g2p ! nat c)]"
    using r row_i inrange c(3)
    by (auto simp: local_atom_id_def py_index_def bind_err_Inr Let_def split: if_splits)
  moreover have "int j = c - int (atom_offset frames (nat s))"
    unfolding j_def using cons(3) c(3) by linarith
  ultimately have "row = [s, c - int (atom_offset frames (nat s))]
     \<and> 0 \<le> row ! 1 \<and> row ! 1 < int (len (frames ! nat s))
     \<and> row ! 1 = int (?g2p ! nat c)"
    using loc c(2) by simp
  with mem show ?thesis by blast
qed

theorem spherical_compute_samples_local_witness:
  "(\<exists>d b. spherical_compute ex_hypers ex_rascal ex_frames = Inr d
         \<and> b \<in> set (blocks d) \<and> [1, 0] \<in> set (lvalues (samples b)))
   \<and> info_consistent ex_frames (representation_info ex_manager)
   \<and> (\<exists>structure center species.
           (structure, center, species) \<in> set (representation_info ex_manager)
         \<and> [1, 0] = [structure, center - int (atom_offset ex_frames (nat structure))]
         \<and> center = 1
         \<and> int (global_to_per_structure_atom_id ex_frames ! nat center) = 0)"
proof -
  from ex_samples obtain d where d: "spherical_compute ex_hypers ex_rascal ex_frames = Inr d"
    and s: "map (\<lambda>b. lvalues (samples b)) (blocks d) =
          [[[1, 0]], [[1, 0]], [[0, 0]], [[0, 0]], [[1, 0]], [[1, 0]], [[0, 0]], [[0, 0]]]"
    by (elim exE conjE)
  from s obtain b bs where bs: "blocks d = b # bs" and b: "lvalues (samples b) = [[1, 0]]"
    by (cases "blocks d") auto
  have mem: "b \<in> set (blocks d)" and row: "[1, 0] \<in> set (lvalues (samples b))"
    using bs b by simp_all
  have sp: "(\<Union>f \<in> set ex_frames. set (numbers f)) = {1, 8}"
    by (auto simp: ex_frames_def)
  have m: "ex_rascal (user_defined ex_hypers
             (sorted_list_of_set (\<Union>f \<in> set ex_frames. set (numbers f)))) ex_frames = Inr ex_manager"
    by (simp add: ex_rascal_def user_defined_def ex_hypers_def)
  have ic: "info_consistent ex_frames (representation_info ex_manager)"
    by (simp add: info_consistent_def ex_manager_def ex_frames_def atom_offset_def len_def)
  from spherical_compute_samples_local [OF d m ic mem row]
  obtain st ce sp where
    r: "(st, ce, sp) \<in> set (representation_info ex_manager)"
       "[1, 0] = [st, ce - int (atom_offset ex_frames (nat st))]"
       "[1, 0 :: int] ! 1 = int (global_to_per_structure_atom_id ex_frames ! nat ce)"
    by blast
  from r(1) r(2) have c1: "ce = 1"
    by (auto simp: ex_manager_def)
  have part1: "\<exists>d b. spherical_compute ex_hypers ex_rascal ex_frames = Inr d
         \<and> b \<in> set (blocks d) \<and> [1, 0] \<in> set (lvalues (samples b))"
    using d mem row by (intro exI conjI)
  have part3: "\<exists>structure center species.
           (structure, center, species) \<in> set (representation_info ex_manager)
         \<and> [1, 0] = [structure, center - int (atom_offset ex_frames (nat structure))]
         \<and> center = 1
         \<and> int (global_to_per_structure_atom_id ex_frames ! nat center) = 0"
  proof (intro exI conjI)
    show "(st, ce, sp) \<in> set (representation_info ex_manager)" by (rule r(1))
    show "[1, 0] = [st, ce - int (atom_offset ex_frames (nat st))]" by (rule r(2))
    show "ce = 1" by (rule c1)
    show "int (global_to_per_structure_atom_id ex_frames ! nat ce) = 0" using r(3) by simp
  qed
  from part1 ic part3 show ?thesis by (intro conjI)
qed

text \<open>The gradient that the builder attaches when gradients are computed.\<close>

lemma length_spherical_component [simp]:
  "length (lvalues (spherical_component_labels l)) = 2 * l + 1"
  by (simp add: spherical_component_labels_def)

lemma length_feature_labels [simp]:
  "length (lvalues (feature_labels h)) = max_radial h"
  by (simp add: feature_labels_def)

lemma block_gradients_of_Inr:
  assumes "block_gradients_of h gradients4 grad_info g2p nsi sl ns l samples0 = Inr (bg, gl)"
  shows "names gl = [''sample'', ''structure'', ''atom'']
       \<and> (lvalues gl = [] \<longrightarrow> shape bg = [0, 3, 2 * l + 1, max_radial h])"
  using assms unfolding block_gradients_of_def
  by (auto simp: bind_err_Inr zeros_def split: if_splits)

lemma grad_index_loop_length:
  assumes "grad_index_loop gradients4 grad_info g2p nsi sl sample_i idxs (bgs, gss) = Inr (bgs', gss')"
  shows "length gss' = length gss
           + length [e \<leftarrow> idxs. linalg_norm (projr (block_gradient_at gradients4 nsi sl e)) \<noteq> 0]"
  using assms
proof (induction idxs arbitrary: bgs gss)
  case Nil
  then show ?case by simp
next
  case (Cons e idxs)
  from Cons.prems obtain bg where bg: "block_gradient_at gradients4 nsi sl e = Inr bg"
    by (auto simp: bind_err_Inr)
  show ?case
  proof (cases "linalg_norm bg = 0")
    case True
    then have "grad_index_loop gradients4 grad_info g2p nsi sl sample_i idxs (bgs, gss) = Inr (bgs', gss')"
      using Cons.prems bg by simp
    from Cons.IH [OF this] show ?thesis using bg True by simp
  next
    case False
    obtain st c1 neighbor_global c3 c4 where row: "grad_info ! e = (st, c1, neighbor_global, c3, c4)"
      by (cases "grad_info ! e") auto
    from Cons.prems bg False row obtain neighbor where
      "grad_index_loop gradients4 grad_info g2p nsi sl sample_i idxs
         (bgs @ [bg], gss @ [[int sample_i, st, neighbor]]) = Inr (bgs', gss')"
      by (auto simp: bind_err_Inr)
    from Cons.IH [OF this] show ?thesis using bg False by simp
  qed
qed

lemma gradient_sample_loop_length:
  assumes "gradient_sample_loop gradients4 grad_info g2p nsi sl ns rows (bgs, gss) = Inr (bgs', gss')"
  shows "length gss' = length gss
           + length [e \<leftarrow> concat (map (\<lambda>(sample_i, structure, center).
                                          gradient_mask grad_info structure center ns) rows).
                       linalg_norm (projr (block_gradient_at gradients4 nsi sl e)) \<noteq> 0]"
  using assms
proof (induction rows arbitrary: bgs gss)
  case Nil
  then show ?case by simp
next
  case (Cons row rows)
  obtain sample_i st center where row: "row = (sample_i, st, center)"
    by (cases row) auto
  from Cons.prems obtain bgs1 gss1 where
    a: "grad_index_loop gradients4 grad_info g2p nsi sl sample_i
          (gradient_mask grad_info st center ns) (bgs, gss) = Inr (bgs1, gss1)"
    and b: "gradient_sample_loop gradients4 grad_info g2p nsi sl ns rows (bgs1, gss1) = Inr (bgs', gss')"
    unfolding row by (auto simp: bind_err_Inr)
  from grad_index_loop_length [OF a] Cons.IH [OF b] show ?case
    unfolding row by simp
qed

lemma concat_map_enumerate:
  "concat (map (\<lambda>(i, x). f x) (enumerate n xs)) = concat (map f xs)"
  by (induction xs arbitrary: n) simp_all

lemma map_filter_nth:
  "map (\<lambda>i. f (xs ! i)) [i \<leftarrow> [0..<length xs]. P (xs ! i)] = map f (filter P xs)"
proof -
  have "filter P xs = filter P (map ((!) xs) [0..<length xs])"
    by (simp add: map_nth)
  also have "\<dots> = map ((!) xs) (filter (P \<circ> (!) xs) [0..<length xs])"
    by (simp add: filter_map)
  finally show ?thesis by (simp add: comp_def)
qed

lemma block_gradients_of_samples:
  assumes "block_gradients_of h gradients4 grad_info g2p nsi sl ns l samples0 = Inr (bg, gl)"
  shows "length (lvalues gl) =
           length [e \<leftarrow> concat (map (\<lambda>(structure, center).
                                        gradient_mask grad_info structure center ns) samples0).
                     linalg_norm (projr (block_gradient_at gradients4 nsi sl e)) \<noteq> 0]"
    and "lvalues gl = [] \<Longrightarrow> bg = zeros [0, 3, 2 * l + 1, max_radial h]"
proof -
  from assms obtain bgs gss where
    loop: "gradient_sample_loop gradients4 grad_info g2p nsi sl ns (enumerate 0 samples0) ([], [])
             = Inr (bgs, gss)"
    and r: "(if length gss \<noteq> 0 then
         bind_err (concatenate bgs) (\<lambda>bg.
           Inr (bg, \<lparr>names = [''sample'', ''structure'', ''atom''], lvalues = gss\<rparr>))
       else
         Inr (zeros [0, 3, length (lvalues (spherical_component_labels l)),
                     length (lvalues (feature_labels h))],
              \<lparr>names = [''sample'', ''structure'', ''atom''], lvalues = []\<rparr>)) = Inr (bg, gl)"
    unfolding block_gradients_of_def by (auto simp: bind_err_Inr)
  have gl: "lvalues gl = gss"
    using r by (auto simp: bind_err_Inr split: if_splits)
  show "length (lvalues gl) =
           length [e \<leftarrow> concat (map (\<lambda>(structure, center).
                                        gradient_mask grad_info structure center ns) samples0).
                     linalg_norm (projr (block_gradient_at gradients4 nsi sl e)) \<noteq> 0]"
    using gradient_sample_loop_length [OF loop] unfolding gl concat_map_enumerate by simp
  show "bg = zeros [0, 3, 2 * l + 1, max_radial h]" if "lvalues gl = []"
    using r that gl by auto
qed

lemma sample_entries:
  "concat (map (\<lambda>(structure, center). gradient_mask (gradients_info m) structure center ns)
     (map (\<lambda>i. (fst (representation_info m ! i), fst (snd (representation_info m ! i))))
        [i \<leftarrow> [0..<length (representation_info m)]. snd (snd (representation_info m ! i)) = cs]))
   = block_gradient_entries m cs ns"
proof -
  have a: "map (\<lambda>i. (fst (representation_info m ! i), fst (snd (representation_info m ! i))))
        [i \<leftarrow> [0..<length (representation_info m)]. snd (snd (representation_info m ! i)) = cs]
      = map (\<lambda>r. (fst r, fst (snd r))) [r \<leftarrow> representation_info m. snd (snd r) = cs]"
    by (rule map_filter_nth [of "\<lambda>r. (fst r, fst (snd r))" "representation_info m" "\<lambda>r. snd (snd r) = cs"])
  have b: "(\<lambda>(structure, center, species).
                    gradient_mask (gradients_info m) structure center ns)
      = (\<lambda>r. gradient_mask (gradients_info m) (fst r) (fst (snd r)) ns)"
    by (simp add: fun_eq_iff)
  show ?thesis
    unfolding block_gradient_entries_def a b
    by (simp add: comp_def)
qed

lemma lm_slices_user_defined [simp]: "lm_slices (user_defined h gs) = lm_slices h"
  by (simp add: lm_slices_def)

lemma spherical_compute_Inr_gradient:
  assumes "spherical_compute hypers0 rascal frames = Inr d"
    and "unique_species frames = Inr gs"
    and "rascal (user_defined hypers0 gs) frames = Inr m"
  obtains data4 where
    "map_err (spherical_block (user_defined hypers0 gs) gs data4 (gradient_array hypers0 gs m)
        (representation_info m) (gradients_info m) (global_to_per_structure_atom_id frames))
        (sparse_keys (user_defined hypers0 gs) gs) = Inr (blocks d)"
    "lvalues (keys d) = map (\<lambda>(l, cs, ns). [int l, cs, ns]) (sparse_keys (user_defined hypers0 gs) gs)"
proof -
  let ?h = "user_defined hypers0 gs"
  have "bind_err (axis_len (features m) 0) (\<lambda>n_data.
     bind_err (np_reshape (features m)
                 [int n_data, int (length gs), int (max_radial ?h), - 1]) (\<lambda>data4.
     bind_err (axis_len (features_gradient m) 0) (\<lambda>n_grad.
     bind_err (np_reshape (features_gradient m)
                 [int n_grad, int (length gs), int (max_radial ?h), - 1]) (\<lambda>gradients4.
     bind_err (map_err (spherical_block ?h gs data4 gradients4 (representation_info m)
                          (gradients_info m) (global_to_per_structure_atom_id frames))
                 (sparse_keys ?h gs)) (\<lambda>bs.
       Inr \<lparr>keys = \<lparr>names = [''spherical_harmonics_l'', ''center_species'', ''neighbor_species''],
                    lvalues = map (\<lambda>(l, cs, ns). [int l, cs, ns]) (sparse_keys ?h gs)\<rparr>,
            blocks = bs\<rparr>))))) = Inr d"
    using assms(1) unfolding spherical_compute_def Let_def assms(2) bind_err_simps assms(3) .
  then obtain data4 n_grad gradients4 bs where
    n: "axis_len (features_gradient m) 0 = Inr n_grad"
    and r: "np_reshape (features_gradient m)
                 [int n_grad, int (length gs), int (max_radial ?h), - 1] = Inr gradients4"
    and bs: "map_err (spherical_block ?h gs data4 gradients4 (representation_info m)
                          (gradients_info m) (global_to_per_structure_atom_id frames))
                 (sparse_keys ?h gs) = Inr bs"
    and d: "d = \<lparr>keys = \<lparr>names = [''spherical_harmonics_l'', ''center_species'', ''neighbor_species''],
                    lvalues = map (\<lambda>(l, cs, ns). [int l, cs, ns]) (sparse_keys ?h gs)\<rparr>,
            blocks = bs\<rparr>"
    unfolding bind_err_Inr by (elim exE conjE) simp
  have ng: "n_grad = shape (features_gradient m) ! 0"
    using n by (simp add: axis_len_def split: if_splits)
  have g4: "gradients4 = gradient_array hypers0 gs m"
    using r unfolding gradient_array_def ng by simp
  show thesis
  proof (rule that)
    show "map_err (spherical_block ?h gs data4 (gradient_array hypers0 gs m)
        (representation_info m) (gradients_info m) (global_to_per_structure_atom_id frames))
        (sparse_keys ?h gs) = Inr (blocks d)"
      using bs unfolding g4 d by simp
    show "lvalues (keys d) = map (\<lambda>(l, cs, ns). [int l, cs, ns]) (sparse_keys ?h gs)"
      unfolding d by simp
  qed
qed

lemma spherical_block_gradient_samples:
  assumes "spherical_block (user_defined hypers0 gs) gs data4 (gradient_array hypers0 gs m)
             (representation_info m) (gradients_info m) g2p (l, cs, ns) = Inr b"
    and "compute_gradients hypers0"
  shows "\<exists>g. gradients b = [(''positions'', g)]
           \<and> names (grad_samples g) = [''sample'', ''structure'', ''atom'']
           \<and> grad_components g = [spatial_component_labels, spherical_component_labels l]
           \<and> length (lvalues (grad_samples g)) =
               length [e \<leftarrow> block_gradient_entries m cs ns. entry_norm hypers0 gs m l ns e \<noteq> 0]
           \<and> (lvalues (grad_samples g) = [] \<longrightarrow>
                grad_data g = zeros [0, 3, 2 * l + 1, max_radial hypers0])"
proof -
  let ?h = "user_defined hypers0 gs"
  let ?info = "representation_info m"
  let ?samples0 = "map (\<lambda>i. (fst (?info ! i), fst (snd (?info ! i))))
                     [i \<leftarrow> [0..<length ?info]. snd (snd (?info ! i)) = cs]"
  from assms(1) obtain nsi selected grad sample_rows where
    nsi: "list_index gs ns = Inr nsi"
    and g: "(if compute_gradients ?h
      then bind_err (block_gradients_of ?h (gradient_array hypers0 gs m) (gradients_info m) g2p nsi
             (lm_slices ?h ! l) ns l ?samples0) (\<lambda>g. Inr (Some g))
      else Inr None) = Inr grad"
    and b: "b = (case grad of
            None \<Rightarrow> \<lparr>block_values = swapaxes12 selected,
                 samples = \<lparr>names = [''structure'', ''center''], lvalues = sample_rows\<rparr>,
                 components = [spherical_component_labels l],
                 properties = feature_labels ?h,
                 gradients = []\<rparr>
          | Some (block_gradients, gradient_samples) \<Rightarrow>
              add_gradient \<lparr>block_values = swapaxes12 selected,
                 samples = \<lparr>names = [''structure'', ''center''], lvalues = sample_rows\<rparr>,
                 components = [spherical_component_labels l],
                 properties = feature_labels ?h,
                 gradients = []\<rparr> ''positions'' block_gradients gradient_samples
                [spatial_component_labels, spherical_component_labels l])"
    by (rule spherical_block_Inr)
  from g assms(2) obtain bg gl where
    r: "block_gradients_of ?h (gradient_array hypers0 gs m) (gradients_info m) g2p nsi
             (lm_slices ?h ! l) ns l ?samples0 = Inr (bg, gl)" and grad: "grad = Some (bg, gl)"
    by (auto simp: bind_err_Inr)
  have nm: "names gl = [''sample'', ''structure'', ''atom'']"
    using block_gradients_of_Inr [OF r] by simp
  have len: "length (lvalues gl) =
      length [e \<leftarrow> block_gradient_entries m cs ns. entry_norm hypers0 gs m l ns e \<noteq> 0]"
    using block_gradients_of_samples(1) [OF r]
    unfolding sample_entries entry_norm_def nsi by simp
  have z: "lvalues gl = [] \<longrightarrow> bg = zeros [0, 3, 2 * l + 1, max_radial hypers0]"
    using block_gradients_of_samples(2) [OF r] by simp
  from nm len z b grad show ?thesis
    by (simp add: add_gradient_def)
qed

text \<open>
  Claim C10. When the hyperparameters ask for gradients, every block that
  \<open>RascalSphericalExpansion.compute\<close> returns has exactly one gradient, named
  "positions", with sample names \<open>sample, structure, atom\<close> and the spatial and
  spherical components. Its samples are as many as the gradient entries of the block
  that pass the test \<open>np.linalg.norm(block_gradient) == 0\<close>, that is whose norm is not
  zero. When no entry of the block passes (all have norm zero, or the block has no
  entry), the gradient is still there, with no sample and the explicit array of zeros
  of shape \<open>(0, 3, 2 l + 1, max_radial)\<close> as its values.
\<close>

theorem spherical_compute_gradient_attached:
  assumes "spherical_compute hypers0 rascal frames = Inr d"
    and "compute_gradients hypers0"
    and "unique_species frames = Inr gs"
    and "rascal (user_defined hypers0 gs) frames = Inr m"
  shows "\<forall>i < length (blocks d).
           has_gradient (blocks d ! i) ''positions''
         \<and> (\<exists>g. gradients (blocks d ! i) = [(''positions'', g)]
              \<and> names (grad_samples g) = [''sample'', ''structure'', ''atom'']
              \<and> grad_components g =
                  [spatial_component_labels,
                   spherical_component_labels (nat (lvalues (keys d) ! i ! 0))]
              \<and> length (lvalues (grad_samples g)) =
                  length [e \<leftarrow> block_gradient_entries m (lvalues (keys d) ! i ! 1)
                                  (lvalues (keys d) ! i ! 2).
                            entry_norm hypers0 gs m (nat (lvalues (keys d) ! i ! 0))
                              (lvalues (keys d) ! i ! 2) e \<noteq> 0]
              \<and> ((\<forall>e \<in> set (block_gradient_entries m (lvalues (keys d) ! i ! 1)
                                 (lvalues (keys d) ! i ! 2)).
                     entry_norm hypers0 gs m (nat (lvalues (keys d) ! i ! 0))
                       (lvalues (keys d) ! i ! 2) e = 0) \<longrightarrow>
                   lvalues (grad_samples g) = []
                 \<and> grad_data g =
                     zeros [0, 3, 2 * nat (lvalues (keys d) ! i ! 0) + 1, max_radial hypers0]
                 \<and> shape (grad_data g) =
                     [0, 3, 2 * nat (lvalues (keys d) ! i ! 0) + 1, max_radial hypers0])
              \<and> (lvalues (grad_samples g) = [] \<longrightarrow>
                   shape (grad_data g) =
                     [0, 3, 2 * nat (lvalues (keys d) ! i ! 0) + 1, max_radial hypers0]))"
proof (intro allI impI)
  fix i assume i: "i < length (blocks d)"
  let ?h = "user_defined hypers0 gs"
  from assms(1,3,4) obtain data4 where
    bs: "map_err (spherical_block ?h gs data4 (gradient_array hypers0 gs m)
        (representation_info m) (gradients_info m) (global_to_per_structure_atom_id frames))
        (sparse_keys ?h gs) = Inr (blocks d)"
    and ks: "lvalues (keys d) = map (\<lambda>(l, cs, ns). [int l, cs, ns]) (sparse_keys ?h gs)"
    by (rule spherical_compute_Inr_gradient)
  have len: "length (blocks d) = length (sparse_keys ?h gs)"
    using map_err_length [OF bs] .
  obtain l cs ns where k: "sparse_keys ?h gs ! i = (l, cs, ns)"
    by (cases "sparse_keys ?h gs ! i") auto
  have "spherical_block ?h gs data4 (gradient_array hypers0 gs m)
        (representation_info m) (gradients_info m) (global_to_per_structure_atom_id frames) (l, cs, ns)
        = Inr (blocks d ! i)"
    using map_err_nth [OF bs, of i] i len k by simp
  from spherical_block_gradient_samples [OF this assms(2)]
  obtain g where g: "gradients (blocks d ! i) = [(''positions'', g)]"
    "names (grad_samples g) = [''sample'', ''structure'', ''atom'']"
    "grad_components g = [spatial_component_labels, spherical_component_labels l]"
    "length (lvalues (grad_samples g)) =
       length [e \<leftarrow> block_gradient_entries m cs ns. entry_norm hypers0 gs m l ns e \<noteq> 0]"
    "lvalues (grad_samples g) = [] \<longrightarrow> grad_data g = zeros [0, 3, 2 * l + 1, max_radial hypers0]"
    by (elim exE conjE)
  have key: "lvalues (keys d) ! i = [int l, cs, ns]"
    using ks k i len by simp
  have l: "nat (lvalues (keys d) ! i ! 0) = l" "lvalues (keys d) ! i ! 1 = cs"
    "lvalues (keys d) ! i ! 2 = ns"
    unfolding key by simp_all
  have none: "lvalues (grad_samples g) = []"
    if "\<forall>e \<in> set (block_gradient_entries m cs ns). entry_norm hypers0 gs m l ns e = 0"
  proof -
    have "[e \<leftarrow> block_gradient_entries m cs ns. entry_norm hypers0 gs m l ns e \<noteq> 0] = []"
      using that by (simp add: filter_empty_conv)
    then show ?thesis using g(4) by simp
  qed
  have sh: "shape (grad_data g) = [0, 3, 2 * l + 1, max_radial hypers0]"
    if "lvalues (grad_samples g) = []"
    using g(5) that by (simp add: zeros_def)
  have hg: "has_gradient (blocks d ! i) ''positions''"
    using g(1) by (simp add: has_gradient_def)
  show "has_gradient (blocks d ! i) ''positions''
         \<and> (\<exists>g. gradients (blocks d ! i) = [(''positions'', g)]
              \<and> names (grad_samples g) = [''sample'', ''structure'', ''atom'']
              \<and> grad_components g =
                  [spatial_component_labels,
                   spherical_component_labels (nat (lvalues (keys d) ! i ! 0))]
              \<and> length (lvalues (grad_samples g)) =
                  length [e \<leftarrow> block_gradient_entries m (lvalues (keys d) ! i ! 1)
                                  (lvalues (keys d) ! i ! 2).
                            entry_norm hypers0 gs m (nat (lvalues (keys d) ! i ! 0))
                              (lvalues (keys d) ! i ! 2) e \<noteq> 0]
              \<and> ((\<forall>e \<in> set (block_gradient_entries m (lvalues (keys d) ! i ! 1)
                                 (lvalues (keys d) ! i ! 2)).
                     entry_norm hypers0 gs m (nat (lvalues (keys d) ! i ! 0))
                       (lvalues (keys d) ! i ! 2) e = 0) \<longrightarrow>
                   lvalues (grad_samples g) = []
                 \<and> grad_data g =
                     zeros [0, 3, 2 * nat (lvalues (keys d) ! i ! 0) + 1, max_radial hypers0]
                 \<and> shape (grad_data g) =
                     [0, 3, 2 * nat (lvalues (keys d) ! i ! 0) + 1, max_radial hypers0])
              \<and> (lvalues (grad_samples g) = [] \<longrightarrow>
                   shape (grad_data g) =
                     [0, 3, 2 * nat (lvalues (keys d) ! i ! 0) + 1, max_radial hypers0]))"
    unfolding l
    using hg g(1,2,3,4) g(5) none sh
    by (intro conjI exI [of _ g] impI) simp_all
qed

lemma ex_gradient_run:
  "\<exists>d. spherical_compute ex_hypers_grad ex_rascal ex_frames = Inr d
     \<and> lvalues (keys d) = [[0, 1, 1], [0, 1, 8], [0, 8, 1], [0, 8, 8],
                           [1, 1, 1], [1, 1, 8], [1, 8, 1], [1, 8, 8]]
     \<and> length (blocks d) = 8"
  by (simp add: ex_defs upt_small
     block_gradients_of_def gradient_mask_def block_gradient_at_def select_rows_def swapaxes12_def
     linalg_norm_def concatenate_def ravel_def add_gradient_def zeros_def
     spherical_component_labels_def feature_labels_def)

lemma ex_gradient_entries:
  "unique_species ex_frames = Inr [1, 8]"
  "ex_rascal (user_defined ex_hypers_grad [1, 8]) ex_frames = Inr ex_manager_grad"
  "block_gradient_entries ex_manager_grad 1 1 = [1]"
  "block_gradient_entries ex_manager_grad 8 8 = [0]"
  "entry_norm ex_hypers_grad [1, 8] ex_manager_grad 0 1 (Suc 0) = 0"
  "entry_norm ex_hypers_grad [1, 8] ex_manager_grad 0 8 0 = sqrt 3"
  by (simp_all add: ex_defs upt_small block_gradient_entries_def entry_norm_def gradient_array_def
     gradient_mask_def block_gradient_at_def select_rows_def swapaxes12_def
     linalg_norm_def ravel_def)

theorem spherical_compute_gradient_attached_witness:
  "\<exists>d. spherical_compute ex_hypers_grad ex_rascal ex_frames = Inr d
      \<and> compute_gradients ex_hypers_grad
      \<and> unique_species ex_frames = Inr [1, 8]
      \<and> ex_rascal (user_defined ex_hypers_grad [1, 8]) ex_frames = Inr ex_manager_grad
      \<and> lvalues (keys d) ! 0 = [0, 1, 1]
      \<and> block_gradient_entries ex_manager_grad 1 1 = [1]
      \<and> entry_norm ex_hypers_grad [1, 8] ex_manager_grad 0 1 1 = 0
      \<and> has_gradient (blocks d ! 0) ''positions''
      \<and> (\<exists>g. gradients (blocks d ! 0) = [(''positions'', g)]
            \<and> lvalues (grad_samples g) = [] \<and> shape (grad_data g) = [0, 3, 1, 1])
      \<and> lvalues (keys d) ! 3 = [0, 8, 8]
      \<and> (\<exists>g. gradients (blocks d ! 3) = [(''positions'', g)]
            \<and> length (lvalues (grad_samples g)) = 1)"
proof -
  from ex_gradient_run obtain d where d: "spherical_compute ex_hypers_grad ex_rascal ex_frames = Inr d"
    and k: "lvalues (keys d) = [[0, 1, 1], [0, 1, 8], [0, 8, 1], [0, 8, 8],
                           [1, 1, 1], [1, 1, 8], [1, 8, 1], [1, 8, 8]]"
    and len: "length (blocks d) = 8"
    by (elim exE conjE)
  have cg: "compute_gradients ex_hypers_grad"
    by (simp add: ex_hypers_grad_def)
  have k0: "lvalues (keys d) ! 0 = [0, 1, 1]" and k3: "lvalues (keys d) ! 3 = [0, 8, 8]"
    unfolding k by simp_all
  have mr: "max_radial ex_hypers_grad = 1" by (simp add: ex_hypers_grad_def)
  have en: "entry_norm ex_hypers_grad [1, 8] ex_manager_grad 0 1 1 = 0"
    using ex_gradient_entries(5) by simp
  note t = spherical_compute_gradient_attached [OF d cg ex_gradient_entries(1,2), rule_format]
  have i0: "0 < length (blocks d)" and i3: "3 < length (blocks d)" using len by simp_all
  from t [OF i0] obtain g0 where
    h0: "has_gradient (blocks d ! 0) ''positions''"
    and g0: "gradients (blocks d ! 0) = [(''positions'', g0)]"
    and e0: "(\<forall>e \<in> set (block_gradient_entries ex_manager_grad (lvalues (keys d) ! 0 ! 1)
                                 (lvalues (keys d) ! 0 ! 2)).
                     entry_norm ex_hypers_grad [1, 8] ex_manager_grad (nat (lvalues (keys d) ! 0 ! 0))
                       (lvalues (keys d) ! 0 ! 2) e = 0) \<longrightarrow>
                   lvalues (grad_samples g0) = []
                 \<and> grad_data g0 =
                     zeros [0, 3, 2 * nat (lvalues (keys d) ! 0 ! 0) + 1, max_radial ex_hypers_grad]
                 \<and> shape (grad_data g0) =
                     [0, 3, 2 * nat (lvalues (keys d) ! 0 ! 0) + 1, max_radial ex_hypers_grad]"
    by (elim exE conjE)
  have a: "lvalues (grad_samples g0) = [] \<and> shape (grad_data g0) = [0, 3, 1, 1]"
    using e0 unfolding k0 by (simp add: ex_gradient_entries mr zeros_def)
  from t [OF i3] obtain g3 where
    g3: "gradients (blocks d ! 3) = [(''positions'', g3)]"
    and l3: "length (lvalues (grad_samples g3)) =
                  length [e \<leftarrow> block_gradient_entries ex_manager_grad (lvalues (keys d) ! 3 ! 1)
                                  (lvalues (keys d) ! 3 ! 2).
                            entry_norm ex_hypers_grad [1, 8] ex_manager_grad (nat (lvalues (keys d) ! 3 ! 0))
                              (lvalues (keys d) ! 3 ! 2) e \<noteq> 0]"
    by (elim exE conjE)
  have b: "length (lvalues (grad_samples g3)) = 1"
    using l3 unfolding k3 by (simp add: ex_gradient_entries)
  have A: "\<exists>g. gradients (blocks d ! 0) = [(''positions'', g)]
            \<and> lvalues (grad_samples g) = [] \<and> shape (grad_data g) = [0, 3, 1, 1]"
    using g0 a by (intro exI [of _ g0] conjI) simp_all
  have B: "\<exists>g. gradients (blocks d ! 3) = [(''positions'', g)]
            \<and> length (lvalues (grad_samples g)) = 1"
    using g3 b by (intro exI [of _ g3] conjI)
  from d cg ex_gradient_entries(1,2) k0 ex_gradient_entries(3) en h0 A k3 B
  show ?thesis by (intro exI [of _ d] conjI)
qed

section \<open>The pair expansion builder\<close>


lemma set_nonzero_pairs:
  "set (nonzero_pairs idata) =
     {(c, n). c < shape idata ! 0 \<and> n < shape idata ! 1 \<and> squared_norm idata c n > 1 / 10 ^ 20}"
  by (auto simp: nonzero_pairs_def)

lemma comprehension_filter_inner:
  "concat (map (\<lambda>n. if P c n then [(c, n)] else []) ys) =
     filter (\<lambda>(c, n). P c n) (map (Pair c) ys)"
  by (induction ys) simp_all

lemma comprehension_filter:
  "[(c, n). c \<leftarrow> xs, n \<leftarrow> ys, P c n] = filter (\<lambda>(c, n). P c n) (List.product xs ys)"
  by (induction xs) (simp_all add: comprehension_filter_inner)

lemma distinct_nonzero_pairs: "distinct (nonzero_pairs idata)"
  unfolding nonzero_pairs_def comprehension_filter
  by (simp add: distinct_product)












section \<open>The power spectrum\<close>

subsection \<open>One turn of the loops\<close>

lemma nth_cross_product:
  "i < length xs \<Longrightarrow> j < length ys \<Longrightarrow>
     concat (map (\<lambda>x. map (f x) ys) xs) ! (i * length ys + j) = f (xs ! i) (ys ! j)"
proof (induction xs arbitrary: i)
  case Nil
  then show ?case by simp
next
  case (Cons x xs)
  show ?case
  proof (cases i)
    case 0
    then show ?thesis using Cons.prems by (simp add: nth_append)
  next
    case (Suc i')
    then show ?thesis using Cons.prems Cons.IH [of i'] by (simp add: nth_append)
  qed
qed

lemma flat_index:
  fixes s p1 p2 A B :: nat
  assumes "p1 < A" "p2 < B"
  shows "(s * (A * B) + (p1 * B + p2)) div (A * B) = s"
    and "(s * (A * B) + (p1 * B + p2)) mod (A * B) = p1 * B + p2"
    and "(p1 * B + p2) div B = p1"
    and "(p1 * B + p2) mod B = p2"
proof -
  have "p1 * B + p2 < A * B"
  proof -
    have "p1 * B + p2 < p1 * B + B" using assms(2) by simp
    also have "\<dots> = (p1 + 1) * B" by simp
    also have "\<dots> \<le> A * B" using assms(1) by (intro mult_le_mono1) simp
    finally show ?thesis .
  qed
  then have lt: "p1 * B + p2 < A * B" .
  have nz: "A * B \<noteq> 0" using assms by simp
  show "(s * (A * B) + (p1 * B + p2)) div (A * B) = s"
    using div_mult_self3 [OF nz, of s "p1 * B + p2"] lt by simp
  show "(s * (A * B) + (p1 * B + p2)) mod (A * B) = p1 * B + p2"
    using mod_mult_self3 [of s "A * B" "p1 * B + p2"] lt by simp
  show "(p1 * B + p2) div B = p1" "(p1 * B + p2) mod B = p2"
    using assms(2) by simp_all
qed

lemma einsum_ima_imb_Inr:
  assumes "einsum_ima_imb x y = Inr e"
  shows "shape e = [shape x ! 0, shape x ! 2, shape y ! 2]"
    and "elem e [s, p, q] = (\<Sum>m\<leftarrow>[0..<shape x ! 1]. elem x [s, m, p] * elem y [s, m, q])"
  using assms by (auto simp: einsum_ima_imb_def split: if_splits)

lemma np_reshape_rows:
  assumes "np_reshape a [int n, - 1] = Inr v"
  shows "n \<noteq> 0" and "v = reshaped a [n, prod_list (shape a) div n]"
  using assms by (auto simp: np_reshape_def Let_def split: if_splits)

lemma power_spectrum_block_Some:
  assumes "power_spectrum_block factor spx_1 spx_2 = Inr (Some b)"
  shows "\<exists>e. einsum_ima_imb (block_values spx_1) (block_values spx_2) = Inr e
            \<and> np_reshape (scale factor e) [int (shape e ! 0), - 1] = Inr (block_values b)"
    and "samples b = samples spx_1" and "components b = []"
    and "properties b = power_spectrum_properties spx_1 spx_2"
  using assms unfolding power_spectrum_block_def Let_def
  by (auto simp: bind_err_Inr axis_len_def scale_def add_gradient_def split: if_splits)

lemma power_spectrum_block_values:
  assumes "power_spectrum_block factor spx_1 spx_2 = Inr (Some b)"
  shows "shape (block_values b) =
           [shape (block_values spx_1) ! 0,
            shape (block_values spx_1) ! 2 * shape (block_values spx_2) ! 2]"
    and "p1 < shape (block_values spx_1) ! 2 \<Longrightarrow> p2 < shape (block_values spx_2) ! 2 \<Longrightarrow>
         elem (block_values b) [s, p1 * shape (block_values spx_2) ! 2 + p2] =
           factor * (\<Sum>m\<leftarrow>[0..<shape (block_values spx_1) ! 1].
                       elem (block_values spx_1) [s, m, p1] * elem (block_values spx_2) [s, m, p2])"
proof -
  let ?x = "block_values spx_1" and ?y = "block_values spx_2"
  let ?n = "shape ?x ! 0" and ?M = "shape ?x ! 1" and ?A = "shape ?x ! 2" and ?B = "shape ?y ! 2"
  from power_spectrum_block_Some(1) [OF assms(1)] obtain e where
    e: "einsum_ima_imb ?x ?y = Inr e"
    and v0: "np_reshape (scale factor e) [int (shape e ! 0), - 1] = Inr (block_values b)"
    by blast
  define v where "v = block_values b"
  have v: "np_reshape (scale factor e) [int (shape e ! 0), - 1] = Inr v"
    using v0 by (simp add: v_def)
  have b: "block_values b = v" by (simp add: v_def)
  have she: "shape e = [?n, ?A, ?B]"
    and ele: "\<And>s p q. elem e [s, p, q] = (\<Sum>m\<leftarrow>[0..<?M]. elem ?x [s, m, p] * elem ?y [s, m, q])"
    using einsum_ima_imb_Inr [OF e] by simp_all
  have shs: "shape (scale factor e) = [?n, ?A, ?B]"
    using she by (simp add: scale_def)
  have n0: "?n \<noteq> 0" and vr: "v = reshaped (scale factor e) [?n, (?n * (?A * ?B)) div ?n]"
    using np_reshape_rows [of "scale factor e" ?n v] v she shs by simp_all
  have vr': "v = reshaped (scale factor e) [?n, ?A * ?B]"
    using vr n0 by simp
  show "shape (block_values b) = [?n, ?A * ?B]"
    using b vr' by (simp add: reshaped_def)
  show "elem (block_values b) [s, p1 * ?B + p2] =
      factor * (\<Sum>m\<leftarrow>[0..<?M]. elem ?x [s, m, p1] * elem ?y [s, m, p2])"
    if p: "p1 < ?A" "p2 < ?B"
  proof -
    have rav: "ravel [?n, ?A * ?B] [s, p1 * ?B + p2] = s * (?A * ?B) + (p1 * ?B + p2)"
      by (simp add: ravel_def)
    have unr: "unravel [?n, ?A, ?B] (s * (?A * ?B) + (p1 * ?B + p2)) = [s, p1, p2]"
      using flat_index(1,2) [OF p, of s] flat_index(3,4) [OF p] by simp
    show ?thesis
      unfolding b vr' reshaped_def using rav unr shs ele [of s p1 p2]
      by (simp add: scale_def)
  qed
qed

lemma unpack3_Inr: "unpack3 row = Inr (a, b, c) \<longleftrightarrow> row = [a, b, c]"
  by (auto simp: unpack3_def split: list.splits)

lemma combine_pair_Some:
  assumes "combine_pair slice_block same (l1, cs1, ns1) spx_1 (k2, spx_2) = Inr (s1, Some (k, b))"
  shows "\<exists>ns2 s2 factor. k2 = [l1, cs1, ns2] \<and> k = [l1, cs1, ns1, ns2]
           \<and> restrict_to_common slice_block spx_1 spx_2 = Inr (s1, s2)
           \<and> contraction_factor same l1 ns1 ns2 = Inr (Some factor)
           \<and> power_spectrum_block factor s1 s2 = Inr (Some b)"
  using assms unfolding combine_pair_def
  by (auto simp: bind_err_Inr unpack3_Inr split: if_splits option.splits)

lemma contraction_factor_Some:
  assumes "contraction_factor same l1 ns1 ns2 = Inr (Some factor)"
  shows "\<not> (ns1 > ns2 \<and> same)"
    and "factor = (if ns1 = ns2 then 1 / sqrt (real_of_int (2 * l1 + 1))
                   else sqrt 2 / sqrt (real_of_int (2 * l1 + 1)))"
  using assms by (auto simp: contraction_factor_def split: if_splits)

text \<open>Evaluation of the examples.\<close>

lemmas soap_defs = compute_power_spectrum_def items_def expansion_key_names_def unpack3_def
  combine_pair_def restrict_to_common_def samples_all_equal_def contraction_factor_def
  power_spectrum_block_def einsum_ima_imb_def scale_def np_reshape_def reshaped_def axis_len_def
  has_gradient_def gradient_of_def power_spectrum_properties_def add_gradient_def Let_def

lemmas soap_grad_defs = power_spectrum_gradient_def unique_rows_def rows_of_three_def label_column_def
  take_samples_def py_index_def einsum_ixma_imb_def einsum_ima_ixmb_def mapping_lookup_def add_row_def zeros_def

lemmas ex_soap_defs = ex_expansion_def ex_expansion_plain_def ex_block_def ex_block_grad_def
  ex_block_empty_grad_def ex_gradient_def ex_empty_gradient_def ex_slicer_def

text \<open>Claim C1. Whenever a turn of the inner loop of \<open>compute_power_spectrum\<close> appends a
  block, the two keys agree on \<open>l\<close> and on the center species, and with \<open>s1\<close>, \<open>s2\<close> the
  two blocks after the restriction to their common samples and \<open>factor\<close> the scale
  factor of the turn: the new values are a two-dimensional array of shape
  \<open>(samples, properties_1 * properties_2)\<close>, whose entry at sample \<open>s\<close> and at the
  flattened position of \<open>(p1, p2)\<close> is \<open>factor\<close> times the sum over \<open>m\<close> of
  \<open>s1[s, m, p1] * s2[s, m, p2]\<close>; the samples are those of \<open>s1\<close>, there are no
  components, the property names are those of the two blocks suffixed with \<open>_1\<close> and
  \<open>_2\<close>, and the property rows are the cross product of the rows of the two blocks, the
  row at the flattened position of \<open>(p1, p2)\<close> being row \<open>p1\<close> of the first followed by
  row \<open>p2\<close> of the second whenever the blocks have one property row per column.\<close>

theorem combine_pair_values:
  assumes "combine_pair slice_block same (l1, cs1, ns1) spx_1 (k2, spx_2) = Inr (s1, Some (k, b))"
  shows "\<exists>ns2 s2 factor.
      k2 = [l1, cs1, ns2] \<and> k = [l1, cs1, ns1, ns2]
    \<and> restrict_to_common slice_block spx_1 spx_2 = Inr (s1, s2)
    \<and> contraction_factor same l1 ns1 ns2 = Inr (Some factor)
    \<and> shape (block_values b) =
        [shape (block_values s1) ! 0, shape (block_values s1) ! 2 * shape (block_values s2) ! 2]
    \<and> samples b = samples s1
    \<and> components b = []
    \<and> names (properties b) =
        map (\<lambda>name. name @ ''_1'') (names (properties s1))
        @ map (\<lambda>name. name @ ''_2'') (names (properties s2))
    \<and> lvalues (properties b) =
        [p1 @ p2. p1 \<leftarrow> lvalues (properties s1), p2 \<leftarrow> lvalues (properties s2)]
    \<and> (\<forall>s p1 p2. p1 < shape (block_values s1) ! 2 \<and> p2 < shape (block_values s2) ! 2 \<longrightarrow>
          elem (block_values b) [s, p1 * shape (block_values s2) ! 2 + p2] =
            factor * (\<Sum>m\<leftarrow>[0..<shape (block_values s1) ! 1].
                        elem (block_values s1) [s, m, p1] * elem (block_values s2) [s, m, p2])
        \<and> (length (lvalues (properties s1)) = shape (block_values s1) ! 2
            \<and> length (lvalues (properties s2)) = shape (block_values s2) ! 2 \<longrightarrow>
             lvalues (properties b) ! (p1 * shape (block_values s2) ! 2 + p2) =
               lvalues (properties s1) ! p1 @ lvalues (properties s2) ! p2))"
proof -
  from combine_pair_Some [OF assms] obtain ns2 s2 factor where
    k: "k2 = [l1, cs1, ns2]" "k = [l1, cs1, ns1, ns2]"
    and r: "restrict_to_common slice_block spx_1 spx_2 = Inr (s1, s2)"
    and f: "contraction_factor same l1 ns1 ns2 = Inr (Some factor)"
    and p: "power_spectrum_block factor s1 s2 = Inr (Some b)"
    by blast
  let ?A = "shape (block_values s1) ! 2" and ?B = "shape (block_values s2) ! 2"
  have pr: "properties b = power_spectrum_properties s1 s2"
    by (rule power_spectrum_block_Some(4) [OF p])
  have nm: "names (properties b) =
        map (\<lambda>name. name @ ''_1'') (names (properties s1))
        @ map (\<lambda>name. name @ ''_2'') (names (properties s2))"
    using pr by (simp add: power_spectrum_properties_def)
  have pv: "lvalues (properties b) =
        [p1 @ p2. p1 \<leftarrow> lvalues (properties s1), p2 \<leftarrow> lvalues (properties s2)]"
    using pr by (simp add: power_spectrum_properties_def)
  have row: "lvalues (properties b) ! (p1 * ?B + p2) =
               lvalues (properties s1) ! p1 @ lvalues (properties s2) ! p2"
    if "p1 < ?A" "p2 < ?B" "length (lvalues (properties s1)) = ?A"
       "length (lvalues (properties s2)) = ?B" for p1 p2
    unfolding pv
    using nth_cross_product [where i = p1 and xs = "lvalues (properties s1)" and j = p2
        and ys = "lvalues (properties s2)" and f = "(@)"] that by simp
  have all: "\<forall>s p1 p2. p1 < ?A \<and> p2 < ?B \<longrightarrow>
          elem (block_values b) [s, p1 * ?B + p2] =
            factor * (\<Sum>m\<leftarrow>[0..<shape (block_values s1) ! 1].
                        elem (block_values s1) [s, m, p1] * elem (block_values s2) [s, m, p2])
        \<and> (length (lvalues (properties s1)) = ?A \<and> length (lvalues (properties s2)) = ?B \<longrightarrow>
             lvalues (properties b) ! (p1 * ?B + p2) =
               lvalues (properties s1) ! p1 @ lvalues (properties s2) ! p2)"
    using power_spectrum_block_values(2) [OF p] row by blast
  show ?thesis
    using k r f power_spectrum_block_values(1) [OF p] power_spectrum_block_Some(2,3) [OF p] nm pv all
    by (intro exI [of _ ns2] exI [of _ s2] exI [of _ factor] conjI)
qed

lemma ex_combine_pair:
  "\<exists>b. combine_pair ex_slicer True (0, 1, 1) ex_block ([0, 1, 8], ex_block)
         = Inr (ex_block, Some ([0, 1, 1, 8], b))"
  by (simp add: soap_defs ex_soap_defs)

lemma ex_restrict: "restrict_to_common ex_slicer ex_block ex_block = Inr (ex_block, ex_block)"
  by (simp add: soap_defs ex_soap_defs)

theorem combine_pair_values_witness:
  "\<exists>b. combine_pair ex_slicer True (0, 1, 1) ex_block ([0, 1, 8], ex_block)
         = Inr (ex_block, Some ([0, 1, 1, 8], b))
     \<and> shape (block_values b) = [1, 4]
     \<and> elem (block_values b) [0, 2] = sqrt 2 * 2
     \<and> names (properties b) = [''n_1'', ''n_2'']
     \<and> lvalues (properties b) = [[0, 0], [0, 1], [1, 0], [1, 1]]
     \<and> lvalues (properties b) ! 2 = [1, 0]"
proof -
  from ex_combine_pair obtain b where
    c: "combine_pair ex_slicer True (0, 1, 1) ex_block ([0, 1, 8], ex_block)
         = Inr (ex_block, Some ([0, 1, 1, 8], b))"
    by (elim exE)
  from combine_pair_values [OF c] obtain ns2 s2 factor where
    r: "restrict_to_common ex_slicer ex_block ex_block = Inr (ex_block, s2)"
    and ns2: "[0, 1, 8] = [0, 1, ns2]"
    and f: "contraction_factor True 0 1 ns2 = Inr (Some factor)"
    and sh: "shape (block_values b) =
        [shape (block_values ex_block) ! 0, shape (block_values ex_block) ! 2 * shape (block_values s2) ! 2]"
    and nm: "names (properties b) =
        map (\<lambda>name. name @ ''_1'') (names (properties ex_block))
        @ map (\<lambda>name. name @ ''_2'') (names (properties s2))"
    and pv: "lvalues (properties b) =
        [p1 @ p2. p1 \<leftarrow> lvalues (properties ex_block), p2 \<leftarrow> lvalues (properties s2)]"
    and all: "\<forall>s p1 p2. p1 < shape (block_values ex_block) ! 2 \<and> p2 < shape (block_values s2) ! 2 \<longrightarrow>
          elem (block_values b) [s, p1 * shape (block_values s2) ! 2 + p2] =
            factor * (\<Sum>m\<leftarrow>[0..<shape (block_values ex_block) ! 1].
                        elem (block_values ex_block) [s, m, p1] * elem (block_values s2) [s, m, p2])
        \<and> (length (lvalues (properties ex_block)) = shape (block_values ex_block) ! 2
            \<and> length (lvalues (properties s2)) = shape (block_values s2) ! 2 \<longrightarrow>
             lvalues (properties b) ! (p1 * shape (block_values s2) ! 2 + p2) =
               lvalues (properties ex_block) ! p1 @ lvalues (properties s2) ! p2)"
    by (elim exE conjE)
  have s2: "s2 = ex_block" using r ex_restrict by simp
  have fac: "factor = sqrt 2" using f ns2 by (simp add: contraction_factor_def)
  have "shape (block_values b) = [1, 4]"
    using sh unfolding s2 by (simp add: ex_block_def)
  moreover have "elem (block_values b) [0, 2] = sqrt 2 * 2"
    using all [rule_format, of 1 0 0] unfolding s2 fac by (simp add: ex_block_def)
  moreover have "names (properties b) = [''n_1'', ''n_2'']"
    using nm unfolding s2 by (simp add: ex_block_def)
  moreover have "lvalues (properties b) = [[0, 0], [0, 1], [1, 0], [1, 1]]"
    using pv unfolding s2 by (simp add: ex_block_def)
  moreover have "lvalues (properties b) ! 2 = [1, 0]"
    using all [rule_format, of 1 0 0] unfolding s2 by (simp add: ex_block_def)
  ultimately show ?thesis using c by (intro exI [of _ b] conjI)
qed


subsection \<open>Gradients of the power spectrum\<close>










subsection \<open>The keys of the self combination\<close>

lemma compute_power_spectrum_self_Inr:
  assumes "compute_power_spectrum slice_block expansion None = Inr d"
  obtains out where
    "outer_loop slice_block True (items expansion) (items expansion) [] = Inr out"
    "lvalues (keys d) = map fst out" "blocks d = map snd out"
  using assms unfolding compute_power_spectrum_def
  by (auto simp: bind_err_Inr split: if_splits)

lemma power_spectrum_block_no_gradient:
  assumes "\<not> has_gradient s1 ''positions''" "power_spectrum_block f s1 s2 = Inr r"
  shows "\<exists>b. r = Some b"
  using assms unfolding power_spectrum_block_def Let_def
  by (auto simp: bind_err_Inr split: if_splits)

lemma power_spectrum_block_None:
  assumes "power_spectrum_block f s1 s2 = Inr None"
  shows "\<exists>g1 g2. gradient_of s1 ''positions'' = Inr g1 \<and> gradient_of s2 ''positions'' = Inr g2
           \<and> (lvalues (grad_samples g1) = [] \<or> lvalues (grad_samples g2) = [])"
  using assms unfolding power_spectrum_block_def Let_def
  by (auto simp: bind_err_Inr split: if_splits)

lemma restrict_to_common_no_gradient:
  assumes "restrict_to_common slice_block s1 s2 = Inr (s1', s2')"
    and "slicer_keeps_no_gradient slice_block" "\<not> has_gradient s1 ''positions''"
  shows "\<not> has_gradient s1' ''positions''"
proof (cases "samples_all_equal (lvalues (samples s1)) (lvalues (samples s2))")
  case True
  then show ?thesis using assms(1,3) by (simp add: restrict_to_common_def)
next
  case False
  then obtain ls where "slice_block s1 ls = Inr s1'"
    using assms(1) by (auto simp: restrict_to_common_def Let_def bind_err_Inr)
  then show ?thesis using assms(2,3) unfolding slicer_keeps_no_gradient_def by blast
qed

lemma combine_pair_Inr:
  assumes "combine_pair slice_block same (l1, cs1, ns1) spx_1 (k2, spx_2) = Inr (s1, r)"
  obtains (other) l2 cs2 ns2 where "k2 = [l2, cs2, ns2]" "l1 \<noteq> l2 \<or> cs1 \<noteq> cs2"
      "s1 = spx_1" "r = None"
  | (match) ns2 s2 f where "k2 = [l1, cs1, ns2]"
      "restrict_to_common slice_block spx_1 spx_2 = Inr (s1, s2)"
      "contraction_factor same l1 ns1 ns2 = Inr f"
      "case f of None \<Rightarrow> r = None
       | Some factor \<Rightarrow> \<exists>r'. power_spectrum_block factor s1 s2 = Inr r'
                              \<and> r = map_option (\<lambda>b. ([l1, cs1, ns1, ns2], b)) r'"
proof -
  from assms obtain l2 cs2 ns2 where k2: "k2 = [l2, cs2, ns2]"
    by (auto simp: combine_pair_def bind_err_Inr unpack3_Inr)
  show thesis
  proof (cases "l1 \<noteq> l2 \<or> cs1 \<noteq> cs2")
    case True
    then have "s1 = spx_1" "r = None"
      using assms k2 by (auto simp: combine_pair_def unpack3_def)
    with k2 True show ?thesis by (rule other)
  next
    case False
    then have e: "l2 = l1" "cs2 = cs1" by simp_all
    have u: "unpack3 [l1, cs1, ns2] = Inr (l1, cs1, ns2)" by (simp add: unpack3_def)
    from assms obtain s2 f where
      r: "restrict_to_common slice_block spx_1 spx_2 = Inr (s1, s2)"
      and f: "contraction_factor same l1 ns1 ns2 = Inr f"
      and c: "case f of None \<Rightarrow> r = None
       | Some factor \<Rightarrow> \<exists>r'. power_spectrum_block factor s1 s2 = Inr r'
                              \<and> r = map_option (\<lambda>b. ([l1, cs1, ns1, ns2], b)) r'"
      unfolding combine_pair_def k2 e
      by (auto simp: u bind_err_Inr split: option.splits)
    show ?thesis using k2 [unfolded e] r f c by (rule match)
  qed
qed

lemma combine_pair_no_gradient:
  assumes "combine_pair slice_block same key spx_1 it = Inr (s1, r)"
    and "slicer_keeps_no_gradient slice_block" "\<not> has_gradient spx_1 ''positions''"
  shows "\<not> has_gradient s1 ''positions''"
proof -
  obtain l1 cs1 ns1 where key: "key = (l1, cs1, ns1)" by (cases key)
  obtain k2 spx_2 where it: "it = (k2, spx_2)" by (cases it)
  from assms(1) [unfolded key it] show ?thesis
  proof (cases rule: combine_pair_Inr)
    case other
    then show ?thesis using assms(3) by simp
  next
    case match
    then show ?thesis using restrict_to_common_no_gradient assms(2,3) by blast
  qed
qed

lemma inner_loop_mono:
  "inner_loop slice_block same key spx_1 its out = Inr out' \<Longrightarrow> set out \<subseteq> set out'"
proof (induction its arbitrary: spx_1 out)
  case Nil
  then show ?case by simp
next
  case (Cons it its)
  from Cons.prems obtain s' r where
    rest: "inner_loop slice_block same key s' its (case r of None \<Rightarrow> out | Some kb \<Rightarrow> out @ [kb]) = Inr out'"
    by (auto simp: bind_err_Inr)
  from Cons.IH [OF rest] show ?case by (cases r) auto
qed

lemma outer_loop_mono:
  "outer_loop slice_block same its1 its2 out = Inr out' \<Longrightarrow> set out \<subseteq> set out'"
proof (induction its1 arbitrary: out)
  case Nil
  then show ?case by simp
next
  case (Cons it its1)
  from Cons.prems obtain key mid where
    i: "inner_loop slice_block same key (snd it) its2 out = Inr mid"
    and rest: "outer_loop slice_block same its1 its2 mid = Inr out'"
    by (auto simp: bind_err_Inr)
  from inner_loop_mono [OF i] Cons.IH [OF rest] show ?case by blast
qed

text \<open>What is appended comes from a turn of the loops, and every turn is taken.\<close>

lemma inner_loop_sound:
  assumes "inner_loop slice_block same key spx_1 its out = Inr out'" "kb \<in> set out'"
  shows "kb \<in> set out
       \<or> (\<exists>j < length its. \<exists>cur s'. spx_1_at slice_block same key spx_1 its j = Inr cur
             \<and> combine_pair slice_block same key cur (its ! j) = Inr (s', Some kb))"
  using assms
proof (induction its arbitrary: spx_1 out)
  case Nil
  then show ?case by simp
next
  case (Cons it its)
  from Cons.prems(1) obtain s' r where
    c: "combine_pair slice_block same key spx_1 it = Inr (s', r)"
    and rest: "inner_loop slice_block same key s' its
                 (case r of None \<Rightarrow> out | Some kb \<Rightarrow> out @ [kb]) = Inr out'"
    by (auto simp: bind_err_Inr)
  from Cons.IH [OF rest Cons.prems(2)] consider
    (old) "kb \<in> set (case r of None \<Rightarrow> out | Some kb \<Rightarrow> out @ [kb])"
    | (later) j cur s'' where "j < length its" "spx_1_at slice_block same key s' its j = Inr cur"
        "combine_pair slice_block same key cur (its ! j) = Inr (s'', Some kb)"
    by blast
  then show ?case
  proof cases
    case old
    show ?thesis
    proof (cases "kb \<in> set out")
      case True
      then show ?thesis by simp
    next
      case False
      then have r: "r = Some kb" using old by (cases r) auto
      have "0 < length (it # its)" by simp
      moreover have "spx_1_at slice_block same key spx_1 (it # its) 0 = Inr spx_1" by simp
      moreover have "combine_pair slice_block same key spx_1 ((it # its) ! 0) = Inr (s', Some kb)"
        using c r by simp
      ultimately show ?thesis by blast
    qed
  next
    case later
    have "Suc j < length (it # its)" using later(1) by simp
    moreover have "spx_1_at slice_block same key spx_1 (it # its) (Suc j) = Inr cur"
      using c later(2) by simp
    moreover have "combine_pair slice_block same key cur ((it # its) ! Suc j) = Inr (s'', Some kb)"
      using later(3) by simp
    ultimately show ?thesis by blast
  qed
qed

lemma inner_loop_complete:
  assumes "inner_loop slice_block same key spx_1 its out = Inr out'" "j < length its"
  shows "\<exists>cur s' r. spx_1_at slice_block same key spx_1 its j = Inr cur
           \<and> combine_pair slice_block same key cur (its ! j) = Inr (s', r)
           \<and> (\<forall>kb. r = Some kb \<longrightarrow> kb \<in> set out')"
  using assms
proof (induction its arbitrary: spx_1 out j)
  case Nil
  then show ?case by simp
next
  case (Cons it its)
  from Cons.prems(1) obtain s' r where
    c: "combine_pair slice_block same key spx_1 it = Inr (s', r)"
    and rest: "inner_loop slice_block same key s' its
                 (case r of None \<Rightarrow> out | Some kb \<Rightarrow> out @ [kb]) = Inr out'"
    by (auto simp: bind_err_Inr)
  show ?case
  proof (cases j)
    case 0
    have "\<forall>kb. r = Some kb \<longrightarrow> kb \<in> set out'"
      using inner_loop_mono [OF rest] by auto
    moreover have "spx_1_at slice_block same key spx_1 (it # its) 0 = Inr spx_1" by simp
    moreover have "combine_pair slice_block same key spx_1 ((it # its) ! 0) = Inr (s', r)"
      using c by simp
    ultimately show ?thesis unfolding 0 by blast
  next
    case (Suc j')
    then have "j' < length its" using Cons.prems(2) by simp
    from Cons.IH [OF rest this] obtain cur s'' r' where
      "spx_1_at slice_block same key s' its j' = Inr cur"
      "combine_pair slice_block same key cur (its ! j') = Inr (s'', r')"
      "\<forall>kb. r' = Some kb \<longrightarrow> kb \<in> set out'"
      by blast
    moreover have "spx_1_at slice_block same key spx_1 (it # its) (Suc j')
        = spx_1_at slice_block same key s' its j'"
      using c by simp
    ultimately show ?thesis unfolding Suc by auto
  qed
qed

lemma outer_loop_sound:
  assumes "outer_loop slice_block same its1 its2 out = Inr out'" "kb \<in> set out'"
  shows "kb \<in> set out
       \<or> (\<exists>i < length its1. \<exists>key. unpack3 (fst (its1 ! i)) = Inr key
            \<and> (\<exists>j < length its2. \<exists>cur s'.
                  spx_1_at slice_block same key (snd (its1 ! i)) its2 j = Inr cur
                \<and> combine_pair slice_block same key cur (its2 ! j) = Inr (s', Some kb)))"
  using assms
proof (induction its1 arbitrary: out)
  case Nil
  then show ?case by simp
next
  case (Cons it its1)
  from Cons.prems(1) obtain key mid where
    u: "unpack3 (fst it) = Inr key"
    and i: "inner_loop slice_block same key (snd it) its2 out = Inr mid"
    and rest: "outer_loop slice_block same its1 its2 mid = Inr out'"
    by (auto simp: bind_err_Inr)
  from Cons.IH [OF rest Cons.prems(2)] consider
    (mid) "kb \<in> set mid"
    | (later) i' key' j cur s' where "i' < length its1" "unpack3 (fst (its1 ! i')) = Inr key'"
        "j < length its2" "spx_1_at slice_block same key' (snd (its1 ! i')) its2 j = Inr cur"
        "combine_pair slice_block same key' cur (its2 ! j) = Inr (s', Some kb)"
    by blast
  then show ?case
  proof cases
    case mid
    from inner_loop_sound [OF i mid] consider
      (old) "kb \<in> set out"
      | (here) j cur s' where "j < length its2"
          "spx_1_at slice_block same key (snd it) its2 j = Inr cur"
          "combine_pair slice_block same key cur (its2 ! j) = Inr (s', Some kb)"
      by blast
    then show ?thesis
    proof cases
      case old
      then show ?thesis by simp
    next
      case here
      have "0 < length (it # its1)" by simp
      moreover have "unpack3 (fst ((it # its1) ! 0)) = Inr key" using u by simp
      moreover have "spx_1_at slice_block same key (snd ((it # its1) ! 0)) its2 j = Inr cur"
        using here(2) by simp
      ultimately show ?thesis using here(1,3) by blast
    qed
  next
    case later
    have "Suc i' < length (it # its1)" using later(1) by simp
    moreover have "unpack3 (fst ((it # its1) ! Suc i')) = Inr key'" using later(2) by simp
    moreover have "spx_1_at slice_block same key' (snd ((it # its1) ! Suc i')) its2 j = Inr cur"
      using later(4) by simp
    ultimately show ?thesis using later(3,5) by blast
  qed
qed

lemma outer_loop_complete:
  assumes "outer_loop slice_block same its1 its2 out = Inr out'" "i < length its1"
    and "j < length its2"
  shows "\<exists>key cur s' r. unpack3 (fst (its1 ! i)) = Inr key
           \<and> spx_1_at slice_block same key (snd (its1 ! i)) its2 j = Inr cur
           \<and> combine_pair slice_block same key cur (its2 ! j) = Inr (s', r)
           \<and> (\<forall>kb. r = Some kb \<longrightarrow> kb \<in> set out')"
  using assms(1,2)
proof (induction its1 arbitrary: out i)
  case Nil
  then show ?case by simp
next
  case (Cons it its1)
  from Cons.prems(1) obtain key mid where
    u: "unpack3 (fst it) = Inr key"
    and il: "inner_loop slice_block same key (snd it) its2 out = Inr mid"
    and rest: "outer_loop slice_block same its1 its2 mid = Inr out'"
    by (auto simp: bind_err_Inr)
  show ?case
  proof (cases i)
    case 0
    from inner_loop_complete [OF il assms(3)] obtain cur s' r where
      a: "spx_1_at slice_block same key (snd it) its2 j = Inr cur"
      "combine_pair slice_block same key cur (its2 ! j) = Inr (s', r)"
      and m: "\<forall>kb. r = Some kb \<longrightarrow> kb \<in> set mid"
      by blast
    have "\<forall>kb. r = Some kb \<longrightarrow> kb \<in> set out'"
      using m outer_loop_mono [OF rest] by blast
    then show ?thesis unfolding 0 using u a by auto
  next
    case (Suc i')
    then have "i' < length its1" using Cons.prems(2) by simp
    from Cons.IH [OF rest this] show ?thesis unfolding Suc by simp
  qed
qed

lemma inner_loop_emits:
  assumes "inner_loop slice_block True (l, cs, ns1) spx_1 its out = Inr out'"
    and "slicer_keeps_no_gradient slice_block" "\<not> has_gradient spx_1 ''positions''"
    and "([l, cs, ns2], spx_2) \<in> set its" "ns1 \<le> ns2"
  shows "\<exists>b. ([l, cs, ns1, ns2], b) \<in> set out'"
  using assms(1,3,4)
proof (induction its arbitrary: spx_1 out)
  case Nil
  then show ?case by simp
next
  case (Cons it its)
  from Cons.prems(1) obtain s' r where
    c: "combine_pair slice_block True (l, cs, ns1) spx_1 it = Inr (s', r)"
    and rest: "inner_loop slice_block True (l, cs, ns1) s' its
                 (case r of None \<Rightarrow> out | Some kb \<Rightarrow> out @ [kb]) = Inr out'"
    by (auto simp: bind_err_Inr)
  have g: "\<not> has_gradient s' ''positions''"
    using combine_pair_no_gradient [OF c assms(2) Cons.prems(2)] .
  show ?case
  proof (cases "it = ([l, cs, ns2], spx_2)")
    case True
    from c [unfolded True] have "\<exists>b. r = Some ([l, cs, ns1, ns2], b)"
    proof (cases rule: combine_pair_Inr)
      case other
      then show ?thesis by simp
    next
      case (match ns2' s2 f)
      then have n: "ns2' = ns2" by simp
      from match(3) assms(5) obtain factor where f: "f = Some factor"
        unfolding n by (auto simp: contraction_factor_def split: if_splits)
      from match(4) obtain r' where
        p: "power_spectrum_block factor s' s2 = Inr r'"
        and r: "r = map_option (\<lambda>b. ([l, cs, ns1, ns2], b)) r'"
        unfolding f n by auto
      from power_spectrum_block_no_gradient [OF g p] obtain b where "r' = Some b" by blast
      then show ?thesis using r by simp
    qed
    then obtain b where r: "r = Some ([l, cs, ns1, ns2], b)" by blast
    have "([l, cs, ns1, ns2], b) \<in> set out'"
      using inner_loop_mono [OF rest] r by auto
    then show ?thesis by blast
  next
    case False
    then have "([l, cs, ns2], spx_2) \<in> set its" using Cons.prems(3) by simp
    from Cons.IH [OF rest g this] show ?thesis .
  qed
qed

lemma outer_loop_emits:
  assumes "outer_loop slice_block True its1 its2 out = Inr out'"
    and "slicer_keeps_no_gradient slice_block"
    and "\<forall>it \<in> set its1. \<not> has_gradient (snd it) ''positions''"
    and "([l, cs, ns1], spx_1) \<in> set its1"
    and "([l, cs, ns2], spx_2) \<in> set its2" "ns1 \<le> ns2"
  shows "\<exists>b. ([l, cs, ns1, ns2], b) \<in> set out'"
  using assms(1,3,4)
proof (induction its1 arbitrary: out)
  case Nil
  then show ?case by simp
next
  case (Cons it its1)
  from Cons.prems(1) obtain key mid where
    u: "unpack3 (fst it) = Inr key"
    and i: "inner_loop slice_block True key (snd it) its2 out = Inr mid"
    and rest: "outer_loop slice_block True its1 its2 mid = Inr out'"
    by (auto simp: bind_err_Inr)
  show ?case
  proof (cases "it = ([l, cs, ns1], spx_1)")
    case True
    have key: "key = (l, cs, ns1)" using u True by (simp add: unpack3_def)
    have g: "\<not> has_gradient spx_1 ''positions''" using Cons.prems(2) True by simp
    from inner_loop_emits [OF i [unfolded key True snd_conv] assms(2) g assms(5,6)]
    obtain b where "([l, cs, ns1, ns2], b) \<in> set mid" by blast
    then have "([l, cs, ns1, ns2], b) \<in> set out'" using outer_loop_mono [OF rest] by blast
    then show ?thesis by blast
  next
    case False
    then have m: "([l, cs, ns1], spx_1) \<in> set its1" using Cons.prems(3) by simp
    have "\<forall>it \<in> set its1. \<not> has_gradient (snd it) ''positions''" using Cons.prems(2) by simp
    from Cons.IH [OF rest this m] show ?thesis .
  qed
qed

lemma key_in_items:
  assumes "k \<in> set (lvalues (keys e))" "length (lvalues (keys e)) = length (blocks e)"
  shows "\<exists>b. (k, b) \<in> set (items e)"
proof -
  from assms(1) obtain i where i: "i < length (lvalues (keys e))" "lvalues (keys e) ! i = k"
    by (auto simp: in_set_conv_nth)
  then have "(k, blocks e ! i) \<in> set (items e)"
    unfolding items_def using assms(2) by (auto simp: in_set_zip)
  then show ?thesis by blast
qed

text \<open>Claim C2, amended. When \<open>compute_power_spectrum\<close> is called without a second
  expansion and returns, with \<open>(key i, block i)\<close> the entries of the expansion in order:

  \<^item> the result has one key per block;

  \<^item> every key of the result is \<open>(l, cs, ns1, ns2)\<close> with \<open>ns1 \<le> ns2\<close>, for two entries
    \<open>i\<close> and \<open>j\<close> of the expansion with the keys \<open>(l, cs, ns1)\<close> and \<open>(l, cs, ns2)\<close>, and
    its block is the contraction of the blocks of that turn of the loops (the block of
    entry \<open>i\<close> as the earlier turns have left it, and the block of entry \<open>j\<close>, both
    restricted to their common samples) with the scale factor \<open>1 / sqrt(2 l + 1)\<close> when
    \<open>ns1 = ns2\<close> and \<open>sqrt(2) / sqrt(2 l + 1)\<close> otherwise;

  \<^item> so the result never has both \<open>(l, cs, ns1, ns2)\<close> and \<open>(l, cs, ns2, ns1)\<close> for
    \<open>ns1 \<noteq> ns2\<close>;

  \<^item> conversely, for every two entries \<open>i\<close> and \<open>j\<close> with the keys \<open>(l, cs, ns1)\<close> and
    \<open>(l, cs, ns2)\<close>, \<open>ns1 \<le> ns2\<close>, the contraction of the blocks of their turn with that
    scale factor is computed, and the key \<open>(l, cs, ns1, ns2)\<close> is in the result with
    the contracted block, unless both blocks have a "positions" gradient and one of
    the two gradients has no samples: then the pair is skipped and gives no key;

  \<^item> in particular, when no block of the expansion has a "positions" gradient (and
    slicing does not create one), every two keys \<open>(l, cs, ns1)\<close> and \<open>(l, cs, ns2)\<close> of
    the expansion with \<open>ns1 \<le> ns2\<close> give the key \<open>(l, cs, ns1, ns2)\<close> in the result.\<close>

theorem compute_power_spectrum_self_keys:
  assumes "compute_power_spectrum slice_block expansion None = Inr d"
  shows "length (lvalues (keys d)) = length (blocks d)
    \<and> (\<forall>n < length (blocks d). \<exists>i j l cs ns1 ns2 cur s1 s2.
          i < length (items expansion) \<and> j < length (items expansion)
        \<and> fst (items expansion ! i) = [l, cs, ns1]
        \<and> fst (items expansion ! j) = [l, cs, ns2]
        \<and> ns1 \<le> ns2
        \<and> lvalues (keys d) ! n = [l, cs, ns1, ns2]
        \<and> spx_1_at slice_block True (l, cs, ns1) (snd (items expansion ! i)) (items expansion) j
            = Inr cur
        \<and> restrict_to_common slice_block cur (snd (items expansion ! j)) = Inr (s1, s2)
        \<and> power_spectrum_block
             (if ns1 = ns2 then 1 / sqrt (real_of_int (2 * l + 1))
              else sqrt 2 / sqrt (real_of_int (2 * l + 1))) s1 s2 = Inr (Some (blocks d ! n)))
    \<and> (\<forall>l cs ns1 ns2. ns1 \<noteq> ns2 \<longrightarrow>
          \<not> ([l, cs, ns1, ns2] \<in> set (lvalues (keys d))
             \<and> [l, cs, ns2, ns1] \<in> set (lvalues (keys d))))
    \<and> (\<forall>i j l cs ns1 ns2.
          i < length (items expansion) \<and> j < length (items expansion)
        \<and> fst (items expansion ! i) = [l, cs, ns1]
        \<and> fst (items expansion ! j) = [l, cs, ns2]
        \<and> ns1 \<le> ns2 \<longrightarrow>
          (\<exists>cur s1 s2 r.
              spx_1_at slice_block True (l, cs, ns1) (snd (items expansion ! i)) (items expansion) j
                = Inr cur
            \<and> restrict_to_common slice_block cur (snd (items expansion ! j)) = Inr (s1, s2)
            \<and> power_spectrum_block
                 (if ns1 = ns2 then 1 / sqrt (real_of_int (2 * l + 1))
                  else sqrt 2 / sqrt (real_of_int (2 * l + 1))) s1 s2 = Inr r
            \<and> (case r of
                  Some b \<Rightarrow> ([l, cs, ns1, ns2], b) \<in> set (zip (lvalues (keys d)) (blocks d))
                | None \<Rightarrow>
                    (\<exists>g1 g2. gradient_of s1 ''positions'' = Inr g1
                           \<and> gradient_of s2 ''positions'' = Inr g2
                           \<and> (lvalues (grad_samples g1) = []
                              \<or> lvalues (grad_samples g2) = [])))))
    \<and> (slicer_keeps_no_gradient slice_block
        \<and> (\<forall>b \<in> set (blocks expansion). \<not> has_gradient b ''positions'')
        \<and> length (lvalues (keys expansion)) = length (blocks expansion) \<longrightarrow>
          (\<forall>l cs ns1 ns2. [l, cs, ns1] \<in> set (lvalues (keys expansion))
                         \<and> [l, cs, ns2] \<in> set (lvalues (keys expansion)) \<and> ns1 \<le> ns2 \<longrightarrow>
             [l, cs, ns1, ns2] \<in> set (lvalues (keys d))))"
proof -
  let ?its = "items expansion"
  from assms obtain out where
    out: "outer_loop slice_block True ?its ?its [] = Inr out"
    and k: "lvalues (keys d) = map fst out" and b: "blocks d = map snd out"
    by (rule compute_power_spectrum_self_Inr)
  have z: "zip (lvalues (keys d)) (blocks d) = out"
    unfolding k b by (rule zip_map_fst_snd)
  have from_turn: "\<exists>i j l cs ns1 ns2 cur s1 s2.
          i < length ?its \<and> j < length ?its
        \<and> fst (?its ! i) = [l, cs, ns1] \<and> fst (?its ! j) = [l, cs, ns2]
        \<and> ns1 \<le> ns2
        \<and> fst kb = [l, cs, ns1, ns2]
        \<and> spx_1_at slice_block True (l, cs, ns1) (snd (?its ! i)) ?its j = Inr cur
        \<and> restrict_to_common slice_block cur (snd (?its ! j)) = Inr (s1, s2)
        \<and> power_spectrum_block
             (if ns1 = ns2 then 1 / sqrt (real_of_int (2 * l + 1))
              else sqrt 2 / sqrt (real_of_int (2 * l + 1))) s1 s2 = Inr (Some (snd kb))"
    if kb: "kb \<in> set out" for kb
  proof -
    from outer_loop_sound [OF out kb] obtain i key j cur s' where
      i: "i < length ?its" and u: "unpack3 (fst (?its ! i)) = Inr key"
      and j: "j < length ?its"
      and cur: "spx_1_at slice_block True key (snd (?its ! i)) ?its j = Inr cur"
      and c: "combine_pair slice_block True key cur (?its ! j) = Inr (s', Some kb)"
      by auto
    obtain l1 cs1 ns1 where key: "key = (l1, cs1, ns1)" by (cases key)
    obtain k2 spx_2 where it: "?its ! j = (k2, spx_2)" by (cases "?its ! j")
    obtain k' b' where kb': "kb = (k', b')" by (cases kb)
    have k1: "fst (?its ! i) = [l1, cs1, ns1]"
      using u unfolding key unpack3_Inr .
    from combine_pair_Some [OF c [unfolded key it kb']] obtain ns2 s2 factor where
      k2: "k2 = [l1, cs1, ns2]" and k': "k' = [l1, cs1, ns1, ns2]"
      and r: "restrict_to_common slice_block cur spx_2 = Inr (s', s2)"
      and f: "contraction_factor True l1 ns1 ns2 = Inr (Some factor)"
      and p: "power_spectrum_block factor s' s2 = Inr (Some b')"
      by blast
    from contraction_factor_Some [OF f] have le: "ns1 \<le> ns2"
      and fv: "factor = (if ns1 = ns2 then 1 / sqrt (real_of_int (2 * l1 + 1))
                   else sqrt 2 / sqrt (real_of_int (2 * l1 + 1)))"
      by simp_all
    have a2: "fst (?its ! j) = [l1, cs1, ns2]" using it k2 by simp
    have a3: "fst kb = [l1, cs1, ns1, ns2]" using kb' k' by simp
    have a4: "spx_1_at slice_block True (l1, cs1, ns1) (snd (?its ! i)) ?its j = Inr cur"
      using cur unfolding key .
    have a5: "restrict_to_common slice_block cur (snd (?its ! j)) = Inr (s', s2)"
      using r it by simp
    have a6: "power_spectrum_block
             (if ns1 = ns2 then 1 / sqrt (real_of_int (2 * l1 + 1))
              else sqrt 2 / sqrt (real_of_int (2 * l1 + 1))) s' s2 = Inr (Some (snd kb))"
      using p unfolding fv kb' by simp
    from i j k1 a2 le a3 a4 a5 a6 show ?thesis
      by (intro exI [of _ i] exI [of _ j] exI [of _ l1] exI [of _ cs1] exI [of _ ns1]
            exI [of _ ns2] exI [of _ cur] exI [of _ s'] exI [of _ s2] conjI)
  qed
  have c1: "length (lvalues (keys d)) = length (blocks d)" by (simp add: k b)
  have c2: "\<forall>n < length (blocks d). \<exists>i j l cs ns1 ns2 cur s1 s2.
          i < length ?its \<and> j < length ?its
        \<and> fst (?its ! i) = [l, cs, ns1] \<and> fst (?its ! j) = [l, cs, ns2]
        \<and> ns1 \<le> ns2
        \<and> lvalues (keys d) ! n = [l, cs, ns1, ns2]
        \<and> spx_1_at slice_block True (l, cs, ns1) (snd (?its ! i)) ?its j = Inr cur
        \<and> restrict_to_common slice_block cur (snd (?its ! j)) = Inr (s1, s2)
        \<and> power_spectrum_block
             (if ns1 = ns2 then 1 / sqrt (real_of_int (2 * l + 1))
              else sqrt 2 / sqrt (real_of_int (2 * l + 1))) s1 s2 = Inr (Some (blocks d ! n))"
  proof (intro allI impI)
    fix n assume "n < length (blocks d)"
    then have n: "n < length out" by (simp add: b)
    then have m: "out ! n \<in> set out" by simp
    have e: "fst (out ! n) = lvalues (keys d) ! n" "snd (out ! n) = blocks d ! n"
      using n by (simp_all add: k b)
    from from_turn [OF m] show "\<exists>i j l cs ns1 ns2 cur s1 s2.
          i < length ?its \<and> j < length ?its
        \<and> fst (?its ! i) = [l, cs, ns1] \<and> fst (?its ! j) = [l, cs, ns2]
        \<and> ns1 \<le> ns2
        \<and> lvalues (keys d) ! n = [l, cs, ns1, ns2]
        \<and> spx_1_at slice_block True (l, cs, ns1) (snd (?its ! i)) ?its j = Inr cur
        \<and> restrict_to_common slice_block cur (snd (?its ! j)) = Inr (s1, s2)
        \<and> power_spectrum_block
             (if ns1 = ns2 then 1 / sqrt (real_of_int (2 * l + 1))
              else sqrt 2 / sqrt (real_of_int (2 * l + 1))) s1 s2 = Inr (Some (blocks d ! n))"
      unfolding e .
  qed
  have ord: "ns1 \<le> ns2" if "[l, cs, ns1, ns2] \<in> set (lvalues (keys d))" for l cs ns1 ns2
  proof -
    from that obtain kb where m: "kb \<in> set out" and f: "fst kb = [l, cs, ns1, ns2]"
      unfolding k by auto
    from from_turn [OF m] obtain l' cs' ns1' ns2' where
      "ns1' \<le> ns2'" "fst kb = [l', cs', ns1', ns2']" by blast
    then show ?thesis using f by simp
  qed
  have c3: "\<forall>l cs ns1 ns2. ns1 \<noteq> ns2 \<longrightarrow>
          \<not> ([l, cs, ns1, ns2] \<in> set (lvalues (keys d))
             \<and> [l, cs, ns2, ns1] \<in> set (lvalues (keys d)))"
  proof (intro allI impI notI, elim conjE)
    fix l cs ns1 ns2 :: int
    assume "ns1 \<noteq> ns2" "[l, cs, ns1, ns2] \<in> set (lvalues (keys d))"
      "[l, cs, ns2, ns1] \<in> set (lvalues (keys d))"
    then show False using ord [of l cs ns1 ns2] ord [of l cs ns2 ns1] by simp
  qed
  have c4: "\<forall>i j l cs ns1 ns2.
          i < length ?its \<and> j < length ?its
        \<and> fst (?its ! i) = [l, cs, ns1] \<and> fst (?its ! j) = [l, cs, ns2]
        \<and> ns1 \<le> ns2 \<longrightarrow>
          (\<exists>cur s1 s2 r.
              spx_1_at slice_block True (l, cs, ns1) (snd (?its ! i)) ?its j = Inr cur
            \<and> restrict_to_common slice_block cur (snd (?its ! j)) = Inr (s1, s2)
            \<and> power_spectrum_block
                 (if ns1 = ns2 then 1 / sqrt (real_of_int (2 * l + 1))
                  else sqrt 2 / sqrt (real_of_int (2 * l + 1))) s1 s2 = Inr r
            \<and> (case r of
                  Some b \<Rightarrow> ([l, cs, ns1, ns2], b) \<in> set (zip (lvalues (keys d)) (blocks d))
                | None \<Rightarrow>
                    (\<exists>g1 g2. gradient_of s1 ''positions'' = Inr g1
                           \<and> gradient_of s2 ''positions'' = Inr g2
                           \<and> (lvalues (grad_samples g1) = []
                              \<or> lvalues (grad_samples g2) = []))))"
  proof (intro allI impI, elim conjE)
    fix i j l cs ns1 ns2
    assume i: "i < length ?its" and j: "j < length ?its"
      and k1: "fst (?its ! i) = [l, cs, ns1]" and k2: "fst (?its ! j) = [l, cs, ns2]"
      and le: "ns1 \<le> ns2"
    from outer_loop_complete [OF out i j] obtain key cur s' r0 where
      u: "unpack3 (fst (?its ! i)) = Inr key"
      and cur: "spx_1_at slice_block True key (snd (?its ! i)) ?its j = Inr cur"
      and c: "combine_pair slice_block True key cur (?its ! j) = Inr (s', r0)"
      and m: "\<forall>kb. r0 = Some kb \<longrightarrow> kb \<in> set out"
      by blast
    have key: "key = (l, cs, ns1)" using u unfolding k1 by (simp add: unpack3_def)
    have it: "?its ! j = ([l, cs, ns2], snd (?its ! j))"
      using k2 by (cases "?its ! j") simp
    have c': "combine_pair slice_block True (l, cs, ns1) cur ([l, cs, ns2], snd (?its ! j))
                = Inr (s', r0)"
      using c unfolding key using it by simp
    from c' show "\<exists>cur s1 s2 r.
              spx_1_at slice_block True (l, cs, ns1) (snd (?its ! i)) ?its j = Inr cur
            \<and> restrict_to_common slice_block cur (snd (?its ! j)) = Inr (s1, s2)
            \<and> power_spectrum_block
                 (if ns1 = ns2 then 1 / sqrt (real_of_int (2 * l + 1))
                  else sqrt 2 / sqrt (real_of_int (2 * l + 1))) s1 s2 = Inr r
            \<and> (case r of
                  Some b \<Rightarrow> ([l, cs, ns1, ns2], b) \<in> set (zip (lvalues (keys d)) (blocks d))
                | None \<Rightarrow>
                    (\<exists>g1 g2. gradient_of s1 ''positions'' = Inr g1
                           \<and> gradient_of s2 ''positions'' = Inr g2
                           \<and> (lvalues (grad_samples g1) = []
                              \<or> lvalues (grad_samples g2) = [])))"
    proof (cases rule: combine_pair_Inr)
      case other
      then show ?thesis by simp
    next
      case (match ns2' s2 f)
      then have n: "ns2' = ns2" by simp
      from match(3) le have f: "f = Some (if ns1 = ns2 then 1 / sqrt (real_of_int (2 * l + 1))
                  else sqrt 2 / sqrt (real_of_int (2 * l + 1)))"
        unfolding n by (auto simp: contraction_factor_def split: if_splits)
      from match(4) obtain r where
        p: "power_spectrum_block
                 (if ns1 = ns2 then 1 / sqrt (real_of_int (2 * l + 1))
                  else sqrt 2 / sqrt (real_of_int (2 * l + 1))) s' s2 = Inr r"
        and r0: "r0 = map_option (\<lambda>b. ([l, cs, ns1, ns2], b)) r"
        unfolding f n by auto
      have "case r of
                  Some b \<Rightarrow> ([l, cs, ns1, ns2], b) \<in> set (zip (lvalues (keys d)) (blocks d))
                | None \<Rightarrow>
                    (\<exists>g1 g2. gradient_of s' ''positions'' = Inr g1
                           \<and> gradient_of s2 ''positions'' = Inr g2
                           \<and> (lvalues (grad_samples g1) = []
                              \<or> lvalues (grad_samples g2) = []))"
      proof (cases r)
        case None
        then show ?thesis using power_spectrum_block_None [OF p [unfolded None]] by simp
      next
        case (Some b')
        then have "([l, cs, ns1, ns2], b') \<in> set out" using m r0 by simp
        then show ?thesis unfolding z Some by simp
      qed
      with cur [unfolded key] match(2) p show ?thesis
        by (intro exI [of _ cur] exI [of _ s'] exI [of _ s2] exI [of _ r] conjI)
    qed
  qed
  have c5: "slicer_keeps_no_gradient slice_block
        \<and> (\<forall>b \<in> set (blocks expansion). \<not> has_gradient b ''positions'')
        \<and> length (lvalues (keys expansion)) = length (blocks expansion) \<longrightarrow>
          (\<forall>l cs ns1 ns2. [l, cs, ns1] \<in> set (lvalues (keys expansion))
                         \<and> [l, cs, ns2] \<in> set (lvalues (keys expansion)) \<and> ns1 \<le> ns2 \<longrightarrow>
             [l, cs, ns1, ns2] \<in> set (lvalues (keys d)))"
  proof (intro allI impI, elim conjE)
    fix l cs ns1 ns2
    assume sl: "slicer_keeps_no_gradient slice_block"
      and ng: "\<forall>b \<in> set (blocks expansion). \<not> has_gradient b ''positions''"
      and len: "length (lvalues (keys expansion)) = length (blocks expansion)"
      and k1: "[l, cs, ns1] \<in> set (lvalues (keys expansion))"
      and k2: "[l, cs, ns2] \<in> set (lvalues (keys expansion))" and le: "ns1 \<le> ns2"
    from key_in_items [OF k1 len] obtain s1 where s1: "([l, cs, ns1], s1) \<in> set (items expansion)"
      by blast
    from key_in_items [OF k2 len] obtain s2 where s2: "([l, cs, ns2], s2) \<in> set (items expansion)"
      by blast
    have g: "\<forall>it \<in> set (items expansion). \<not> has_gradient (snd it) ''positions''"
      using ng unfolding items_def by (auto dest: set_zip_rightD)
    from outer_loop_emits [OF out sl g s1 s2 le] obtain b' where
      "([l, cs, ns1, ns2], b') \<in> set out" by blast
    then show "[l, cs, ns1, ns2] \<in> set (lvalues (keys d))"
      unfolding k by force
  qed
  from c1 c2 c3 c4 c5 show ?thesis by (intro conjI)
qed

lemma ex_slicer_keeps: "slicer_keeps_no_gradient ex_slicer"
  by (simp add: slicer_keeps_no_gradient_def ex_slicer_def)

lemma ex_plain_run:
  "\<exists>d. compute_power_spectrum ex_slicer ex_expansion_plain None = Inr d
      \<and> lvalues (keys d) = [[0, 1, 1, 1], [0, 1, 1, 8], [0, 1, 8, 8]]"
  by (simp add: soap_defs ex_soap_defs)

lemma ex_plain_items:
  "items ex_expansion_plain = [([0, 1, 1], ex_block), ([0, 1, 8], ex_block)]"
  by (simp add: items_def ex_expansion_plain_def expansion_key_names_def)

lemma ex_plain_turn:
  "spx_1_at ex_slicer True (0, 1, 1) ex_block [([0, 1, 1], ex_block), ([0, 1, 8], ex_block)] (Suc 0)
     = Inr ex_block"
  by (simp add: soap_defs ex_soap_defs)

theorem compute_power_spectrum_self_keys_witness:
  "\<exists>d b. compute_power_spectrum ex_slicer ex_expansion_plain None = Inr d
      \<and> lvalues (keys d) = [[0, 1, 1, 1], [0, 1, 1, 8], [0, 1, 8, 8]]
      \<and> length (blocks d) = 3
      \<and> power_spectrum_block (sqrt 2) ex_block ex_block = Inr (Some b)
      \<and> ([0, 1, 1, 8], b) \<in> set (zip (lvalues (keys d)) (blocks d))
      \<and> [0, 1, 1, 8] \<in> set (lvalues (keys d))
      \<and> [0, 1, 8, 1] \<notin> set (lvalues (keys d))"
proof -
  from ex_plain_run obtain d where
    d: "compute_power_spectrum ex_slicer ex_expansion_plain None = Inr d"
    and k: "lvalues (keys d) = [[0, 1, 1, 1], [0, 1, 1, 8], [0, 1, 8, 8]]"
    by (elim exE conjE)
  note t = compute_power_spectrum_self_keys [OF d]
  have l: "length (blocks d) = 3" using t [THEN conjunct1] k by simp
  have h: "0 < length (items ex_expansion_plain) \<and> Suc 0 < length (items ex_expansion_plain)
        \<and> fst (items ex_expansion_plain ! 0) = [0, 1, 1]
        \<and> fst (items ex_expansion_plain ! Suc 0) = [0, 1, 8]
        \<and> (1 :: int) \<le> 8"
    by (simp add: ex_plain_items)
  from t [THEN conjunct2, THEN conjunct2, THEN conjunct2, THEN conjunct1, rule_format,
      of 0 "Suc 0" 0 1 1 8, OF h]
  obtain cur s1 s2 r where
    cur: "spx_1_at ex_slicer True (0, 1, 1) (snd (items ex_expansion_plain ! 0))
            (items ex_expansion_plain) (Suc 0) = Inr cur"
    and rs: "restrict_to_common ex_slicer cur (snd (items ex_expansion_plain ! Suc 0)) = Inr (s1, s2)"
    and p: "power_spectrum_block
                 (if (1 :: int) = 8 then 1 / sqrt (real_of_int (2 * 0 + 1))
                  else sqrt 2 / sqrt (real_of_int (2 * 0 + 1))) s1 s2 = Inr r"
    and c: "case r of
                  Some b \<Rightarrow> ([0, 1, 1, 8], b) \<in> set (zip (lvalues (keys d)) (blocks d))
                | None \<Rightarrow>
                    (\<exists>g1 g2. gradient_of s1 ''positions'' = Inr g1
                           \<and> gradient_of s2 ''positions'' = Inr g2
                           \<and> (lvalues (grad_samples g1) = []
                              \<or> lvalues (grad_samples g2) = []))"
    by (elim exE conjE)
  have cur': "cur = ex_block"
  proof -
    have "spx_1_at ex_slicer True (0, 1, 1) ex_block
            [([0, 1, 1], ex_block), ([0, 1, 8], ex_block)] (Suc 0) = Inr cur"
      using cur unfolding ex_plain_items by (simp del: spx_1_at.simps)
    then show ?thesis unfolding ex_plain_turn by simp
  qed
  have s: "s1 = ex_block" "s2 = ex_block"
    using rs unfolding cur' ex_plain_items by (simp_all add: ex_restrict)
  have p': "power_spectrum_block (sqrt 2) ex_block ex_block = Inr r"
    using p unfolding s by simp
  have ng: "\<not> (\<exists>g1. gradient_of ex_block ''positions'' = Inr g1)"
    by (simp add: gradient_of_def ex_block_def)
  obtain b where r: "r = Some b"
    using c ng unfolding s by (cases r) auto
  have m: "([0, 1, 1, 8], b) \<in> set (zip (lvalues (keys d)) (blocks d))"
    using c unfolding r by simp
  have a: "[0, 1, 1, 8] \<in> set (lvalues (keys d))" unfolding k by simp
  have "\<not> ([0, 1, 1, 8] \<in> set (lvalues (keys d)) \<and> [0, 1, 8, 1] \<in> set (lvalues (keys d)))"
    using t [THEN conjunct2, THEN conjunct2, THEN conjunct1, rule_format, of 1 8 0 1] by simp
  then have n: "[0, 1, 8, 1] \<notin> set (lvalues (keys d))" using a by simp
  from d k l p' [unfolded r] m a n show ?thesis
    by (intro exI [of _ d] exI [of _ b] conjI)
qed

text \<open>The expansion \<open>ex_expansion\<close> has the neighbor species \<open>1\<close> and \<open>8\<close> around the
  center species \<open>1\<close>, the block of species \<open>8\<close> with the explicit empty gradient: the
  result has neither the key \<open>(0, 1, 1, 8)\<close> nor the key \<open>(0, 1, 8, 1)\<close>.\<close>

theorem compute_power_spectrum_self_keys_neither:
  "\<not> isl (compute_power_spectrum ex_slicer ex_expansion None)
   \<and> lvalues (keys (projr (compute_power_spectrum ex_slicer ex_expansion None))) = [[0, 1, 1, 1]]"
  by (simp add: soap_defs soap_grad_defs ex_soap_defs)

end
